theory Spec2Isabelle
  imports Main "HOL-Library.Sublist" "HOL-Library.AList" "HOL-Library.Multiset"
begin

section \<open>Python values, dictionaries and exceptions\<close>

text \<open>
  The pipeline moves JSON data around: a value is \<open>None\<close>, a boolean, an integer, a
  string, a list of values or a dictionary with string keys. A dictionary is an
  association list in insertion order, looked up with \<open>map_of\<close>. What the provider
  sends is such a value, of whatever shape; what the pipeline builds itself (an
  analysis, a profile) is a record with optional keys.
\<close>

datatype pyval =
    PNone
  | PBool bool
  | PInt int
  | PStr string
  | PList "pyval list"
  | PDict "(string \<times> pyval) list"

type_synonym pydict = "(string \<times> pyval) list"

datatype exn =
    KeyError string
  | IndexError
  | TypeError
  | AttributeError
  | ValueError string
  | RequestException
  | Exception string

text \<open>\<open>d.get(k, dflt)\<close> never raises; \<open>d[k]\<close> raises \<open>KeyError\<close> on a missing key.\<close>

definition dict_get :: "pydict \<Rightarrow> string \<Rightarrow> pyval \<Rightarrow> pyval" where
  "dict_get d k dflt = (case map_of d k of None \<Rightarrow> dflt | Some v \<Rightarrow> v)"

definition dict_getitem :: "pydict \<Rightarrow> string \<Rightarrow> exn + pyval" where
  "dict_getitem d k = (case map_of d k of None \<Rightarrow> Inl (KeyError k) | Some v \<Rightarrow> Inr v)"

text \<open>
  \<open>v.get(k, dflt)\<close> on a value of any shape: only a dictionary has the method, anything
  else raises \<open>AttributeError\<close>. \<open>for x in v\<close> runs over the items of a list, the keys of
  a dictionary and the characters of a string; \<open>None\<close>, a boolean or an integer raises
  \<open>TypeError\<close>.
\<close>

definition py_get :: "pyval \<Rightarrow> string \<Rightarrow> pyval \<Rightarrow> exn + pyval" where
  "py_get v k dflt = (case v of PDict d \<Rightarrow> Inr (dict_get d k dflt) | _ \<Rightarrow> Inl AttributeError)"

definition py_iter :: "pyval \<Rightarrow> exn + pyval list" where
  "py_iter v =
     (case v of
        PList xs \<Rightarrow> Inr xs
      | PDict d \<Rightarrow> Inr (map (\<lambda>kv. PStr (fst kv)) d)
      | PStr s \<Rightarrow> Inr (map (\<lambda>c. PStr [c]) s)
      | _ \<Rightarrow> Inl TypeError)"

text \<open>\<open>data.get(key, dflt)\<close> on a record whose key is optional.\<close>

definition key_get :: "'a option \<Rightarrow> 'a \<Rightarrow> 'a" where
  "key_get v dflt = (case v of None \<Rightarrow> dflt | Some x \<Rightarrow> x)"

subsection \<open>Formatting\<close>

fun str_nat :: "nat \<Rightarrow> string" where
  "str_nat n =
     (if n < 10 then [char_of (48 + n)]
      else str_nat (n div 10) @ [char_of (48 + n mod 10)])"

declare str_nat.simps [simp del]

text \<open>\<open>sep.join(xs)\<close> on strings.\<close>

fun join :: "string \<Rightarrow> string list \<Rightarrow> string" where
  "join sep [] = []"
| "join sep [x] = x"
| "join sep (x # y # ys) = x @ sep @ join sep (y # ys)"

text \<open>
  \<open>repr\<close> of a string (over ASCII): in single quotes, or in double quotes when the
  string has a single quote and no double one; the backslash, the chosen quote and the
  control characters escaped.
\<close>

definition hex_digit :: "nat \<Rightarrow> char" where
  "hex_digit n = (if n < 10 then char_of (48 + n) else char_of (87 + n))"

definition repr_char :: "char \<Rightarrow> char \<Rightarrow> string" where
  "repr_char quote c =
     (let n = (of_char c :: nat)
      in if c = CHR 0x5C then [CHR 0x5C, CHR 0x5C]
         else if c = quote then [CHR 0x5C, quote]
         else if n = 10 then [CHR 0x5C, CHR ''n'']
         else if n = 13 then [CHR 0x5C, CHR ''r'']
         else if n = 9 then [CHR 0x5C, CHR ''t'']
         else if n < 32 \<or> 127 \<le> n
         then [CHR 0x5C, CHR ''x'', hex_digit (n div 16), hex_digit (n mod 16)]
         else [c])"

definition repr_str :: "string \<Rightarrow> string" where
  "repr_str s =
     (let quote = (if CHR 0x27 \<in> set s \<and> CHR 0x22 \<notin> set s then CHR 0x22 else CHR 0x27)
      in quote # concat (map (repr_char quote) s) @ [quote])"

fun py_repr :: "pyval \<Rightarrow> string" where
  "py_repr PNone = ''None''"
| "py_repr (PBool b) = (if b then ''True'' else ''False'')"
| "py_repr (PInt i) = (if i < 0 then CHR ''-'' # str_nat (nat (- i)) else str_nat (nat i))"
| "py_repr (PStr s) = repr_str s"
| "py_repr (PList xs) = ''['' @ join '', '' (map py_repr xs) @ '']''"
| "py_repr (PDict kvs) =
     ''{'' @ join '', '' (map (\<lambda>kv. repr_str (fst kv) @ '': '' @ py_repr (snd kv)) kvs) @ ''}''"

text \<open>What an f-string writes for a value: \<open>str(v)\<close>, a string as it is.\<close>

fun py_str :: "pyval \<Rightarrow> string" where
  "py_str (PStr s) = s"
| "py_str v = py_repr v"

text \<open>\<open>sep.join(xs)\<close> raises \<open>TypeError\<close> when an item is not a string.\<close>

fun is_str :: "pyval \<Rightarrow> bool" where
  "is_str (PStr s) = True"
| "is_str v = False"

fun the_str :: "pyval \<Rightarrow> string" where
  "the_str (PStr s) = s"
| "the_str v = []"

definition py_join :: "string \<Rightarrow> pyval list \<Rightarrow> exn + string" where
  "py_join sep xs = (if list_all is_str xs then Inr (join sep (map the_str xs)) else Inl TypeError)"

section \<open>Strings: the library calls the pipeline makes\<close>

text \<open>
  Text is modelled over the ASCII range: \<open>\w\<close> is a letter, a digit or the underscore,
  \<open>\s\<close> and \<open>str.strip\<close>/\<open>str.split()\<close> whitespace are the ASCII whitespace characters
  (tab to carriage return, the four separators 28 to 31, and the space), and
  \<open>str.lower\<close> maps \<open>A\<close>..\<open>Z\<close> to \<open>a\<close>..\<open>z\<close>.
\<close>

definition is_word_char :: "char \<Rightarrow> bool" where
  "is_word_char c =
     (let n = (of_char c :: nat)
      in (48 \<le> n \<and> n \<le> 57) \<or> (65 \<le> n \<and> n \<le> 90) \<or> n = 95 \<or> (97 \<le> n \<and> n \<le> 122))"

definition is_space :: "char \<Rightarrow> bool" where
  "is_space c =
     (let n = (of_char c :: nat)
      in (9 \<le> n \<and> n \<le> 13) \<or> (28 \<le> n \<and> n \<le> 32))"

definition lower_char :: "char \<Rightarrow> char" where
  "lower_char c =
     (let n = (of_char c :: nat) in if 65 \<le> n \<and> n \<le> 90 then char_of (n + 32) else c)"

definition lower :: "string \<Rightarrow> string" where
  "lower s = map lower_char s"

text \<open>\<open>s.strip()\<close>.\<close>

definition strip :: "string \<Rightarrow> string" where
  "strip s = rev (dropWhile is_space (rev (dropWhile is_space s)))"

text \<open>
  The maximal runs of characters that satisfy \<open>P\<close>, left to right: \<open>cur\<close> is the run
  being read. \<open>s.split()\<close> is the runs of non-whitespace, and
  \<open>re.findall(r'\b\w+\b', s)\<close> the runs of word characters (a match starts at a word
  boundary, \<open>\w+\<close> is greedy, and the scan resumes where the match ended).
\<close>

fun runs :: "(char \<Rightarrow> bool) \<Rightarrow> string \<Rightarrow> string \<Rightarrow> string list" where
  "runs P cur [] = (if cur = [] then [] else [cur])"
| "runs P cur (c # cs) =
     (if P c then runs P (cur @ [c]) cs
      else (if cur = [] then [] else [cur]) @ runs P [] cs)"

definition split_ws :: "string \<Rightarrow> string list" where
  "split_ws s = runs (\<lambda>c. \<not> is_space c) [] s"

definition findall_words :: "string \<Rightarrow> string list" where
  "findall_words s = runs is_word_char [] s"

text \<open>
  \<open>s.split(sep)\<close> for a non-empty separator: the pieces between the non-overlapping
  occurrences of \<open>sep\<close>, found left to right; \<open>skip\<close> counts the characters of an
  occurrence still to pass over, \<open>cur\<close> is the piece being read.
\<close>

fun split_aux :: "string \<Rightarrow> nat \<Rightarrow> string \<Rightarrow> string \<Rightarrow> string list" where
  "split_aux sep skip cur [] = [cur]"
| "split_aux sep (Suc n) cur (c # cs) = split_aux sep n cur cs"
| "split_aux sep 0 cur (c # cs) =
     (if prefix sep (c # cs) then cur # split_aux sep (length sep - 1) [] cs
      else split_aux sep 0 (cur @ [c]) cs)"

definition split :: "string \<Rightarrow> string \<Rightarrow> string list" where
  "split sep s = split_aux sep 0 [] s"

text \<open>\<open>sub in s\<close>.\<close>

fun contains :: "string \<Rightarrow> string \<Rightarrow> bool" where
  "contains sub [] = (sub = [])"
| "contains sub (c # cs) = (prefix sub (c # cs) \<or> contains sub cs)"

text \<open>\<open>s.replace(old, '')\<close> for a non-empty \<open>old\<close>: every non-overlapping occurrence goes.\<close>

fun remove_all :: "string \<Rightarrow> nat \<Rightarrow> string \<Rightarrow> string" where
  "remove_all old skip [] = []"
| "remove_all old (Suc n) (c # cs) = remove_all old n cs"
| "remove_all old 0 (c # cs) =
     (if prefix old (c # cs) then remove_all old (length old - 1) cs
      else c # remove_all old 0 cs)"

subsection \<open>The phrase pattern\<close>

text \<open>
  \<open>re.findall(r'\b[\w\s]{10,30}\b', s)\<close>. A match starts at a word boundary, takes as
  many characters of the class as it can, at most 30, and gives them back one at a time
  until it ends at a word boundary, with at least 10 left. \<open>prev\<close> is the character
  before the position (\<open>None\<close> at the start of the text).
\<close>

definition is_w :: "char option \<Rightarrow> bool" where
  "is_w c = (case c of None \<Rightarrow> False | Some x \<Rightarrow> is_word_char x)"

definition word_boundary :: "char option \<Rightarrow> char option \<Rightarrow> bool" where
  "word_boundary p n = (is_w p \<noteq> is_w n)"

definition nth_opt :: "'a list \<Rightarrow> nat \<Rightarrow> 'a option" where
  "nth_opt xs i = (if i < length xs then Some (xs ! i) else None)"

fun longest_end :: "string \<Rightarrow> nat \<Rightarrow> nat option" where
  "longest_end s k =
     (if k < 10 then None
      else if word_boundary (nth_opt s (k - 1)) (nth_opt s k) then Some k
      else longest_end s (k - 1))"

declare longest_end.simps [simp del]

definition phrase_match :: "char option \<Rightarrow> string \<Rightarrow> nat option" where
  "phrase_match prev s =
     (if word_boundary prev (nth_opt s 0)
      then longest_end s (min 30 (length (takeWhile (\<lambda>c. is_word_char c \<or> is_space c) s)))
      else None)"

fun scan_phrases :: "nat \<Rightarrow> char option \<Rightarrow> string \<Rightarrow> string list" where
  "scan_phrases skip prev [] = []"
| "scan_phrases (Suc n) prev (c # cs) = scan_phrases n (Some c) cs"
| "scan_phrases 0 prev (c # cs) =
     (case phrase_match prev (c # cs) of
        Some k \<Rightarrow> take k (c # cs) # scan_phrases (k - 1) (Some c) cs
      | None \<Rightarrow> scan_phrases 0 (Some c) cs)"

definition findall_phrases :: "string \<Rightarrow> string list" where
  "findall_phrases s = scan_phrases 0 None s"

subsection \<open>Counter\<close>

text \<open>
  \<open>Counter(xs)\<close> is a dictionary from item to count that keeps the order in which the
  items were first seen. \<open>most_common(n)\<close> is \<open>heapq.nlargest(n, items, key=count)\<close>,
  that is \<open>sorted(items, key=count, reverse=True)[:n]\<close>: a stable sort, so items of
  equal count keep the order of the dictionary.
\<close>

definition counter_add :: "(string \<times> nat) list \<Rightarrow> string \<Rightarrow> (string \<times> nat) list" where
  "counter_add c x = AList.update x (case map_of c x of None \<Rightarrow> 1 | Some n \<Rightarrow> n + 1) c"

definition Counter :: "string list \<Rightarrow> (string \<times> nat) list" where
  "Counter xs = foldl counter_add [] xs"

definition most_common :: "nat \<Rightarrow> (string \<times> nat) list \<Rightarrow> (string \<times> nat) list" where
  "most_common n c = take n (sort_key (\<lambda>item. - int (snd item)) c)"

text \<open>
  The ranking the two extractors are specified by. \<open>first_index toks x\<close> is where \<open>x\<close>
  first occurs in \<open>toks\<close>; \<open>a\<close> ranks before \<open>b\<close> when it is more frequent, or as frequent
  and first seen earlier. \<open>top_ranked n toks r\<close> says that \<open>r\<close> is the first \<open>n\<close> of that
  ranking of the distinct items of \<open>toks\<close>: as many entries as there are distinct items,
  up to \<open>n\<close>, no entry twice, in rank order, and nothing left out ranks before an entry.
\<close>

definition first_index :: "'a list \<Rightarrow> 'a \<Rightarrow> nat" where
  "first_index xs x = length (takeWhile (\<lambda>y. y \<noteq> x) xs)"

definition ranks_before :: "string list \<Rightarrow> string \<Rightarrow> string \<Rightarrow> bool" where
  "ranks_before toks a b =
     (count_list toks b < count_list toks a \<or>
      (count_list toks a = count_list toks b \<and> first_index toks a < first_index toks b))"

definition top_ranked :: "nat \<Rightarrow> string list \<Rightarrow> string list \<Rightarrow> bool" where
  "top_ranked n toks r =
     (length r = min n (card (set toks)) \<and> distinct r \<and> set r \<subseteq> set toks \<and>
      sorted_wrt (ranks_before toks) r \<and>
      (\<forall>w \<in> set toks - set r. \<forall>x \<in> set r. ranks_before toks x w))"

section \<open>Exceptions as values\<close>

text \<open>
  A call that may raise returns \<open>Inl\<close> the exception or \<open>Inr\<close> its value.
  \<open>bind_exn\<close> is sequencing (the first exception ends the block), \<open>try_except\<close> is
  \<open>try: body except Exception as e: handler(e)\<close>, and \<open>map_exn f xs\<close> is the loop (or
  comprehension) that evaluates \<open>f(x)\<close> for each \<open>x\<close> in turn and collects the results.
\<close>

definition bind_exn :: "exn + 'a \<Rightarrow> ('a \<Rightarrow> exn + 'b) \<Rightarrow> exn + 'b" where
  "bind_exn m f = (case m of Inl e \<Rightarrow> Inl e | Inr v \<Rightarrow> f v)"

definition try_except :: "exn + 'a \<Rightarrow> (exn \<Rightarrow> exn + 'a) \<Rightarrow> exn + 'a" where
  "try_except body handler = (case body of Inl e \<Rightarrow> handler e | Inr v \<Rightarrow> Inr v)"

fun map_exn :: "('a \<Rightarrow> exn + 'b) \<Rightarrow> 'a list \<Rightarrow> exn + 'b list" where
  "map_exn f [] = Inr []"
| "map_exn f (x # xs) = bind_exn (f x) (\<lambda>y. bind_exn (map_exn f xs) (\<lambda>ys. Inr (y # ys)))"

section \<open>analyzer.py: the content analyzer\<close>

text \<open>
  \<open>content_structure\<close> and \<open>content_elements\<close> are dictionaries that are either complete
  or, after a failure, empty. The average paragraph length is a float quotient in
  Python; the model keeps the two integers it divides (sum of the paragraphs' word
  counts, number of paragraphs).
\<close>

datatype content_structure = Structure nat "nat \<times> nat" | Empty_structure

datatype content_elements = Elements nat nat nat nat nat | Empty_elements

text \<open>The \<open>analysis\<close> dictionary: every key is optional (\<open>{}\<close> has none).\<close>

record analysis =
  a_word_count :: "pyval option"
  a_common_phrases :: "string list option"
  a_content_structure :: "content_structure option"
  a_key_topics :: "pyval list option"
  a_content_elements :: "content_elements option"

definition empty_analysis :: analysis where
  "empty_analysis =
     \<lparr> a_word_count = None, a_common_phrases = None, a_content_structure = None,
       a_key_topics = None, a_content_elements = None \<rparr>"

text \<open>
  BeautifulSoup is an external library: its three calls are parameters, and each may
  raise. \<open>bs_count soup tags\<close> is \<open>len(soup.find_all(tags))\<close>.
\<close>

record 'soup bs4 =
  bs_parse :: "string \<Rightarrow> exn + 'soup"
  bs_get_text :: "'soup \<Rightarrow> exn + string"
  bs_count :: "'soup \<Rightarrow> string list \<Rightarrow> exn + nat"

definition extract_common_phrases :: "string \<Rightarrow> exn + string list" where
  "extract_common_phrases text_content =
     try_except
       (Inr (map fst (most_common 10 (Counter (findall_phrases (lower text_content))))))
       (\<lambda>e. Inr [])"

definition extract_key_topics :: "string \<Rightarrow> exn + string list" where
  "extract_key_topics text_content =
     try_except
       (Inr (map fst (most_common 10 (Counter (findall_words (lower text_content))))))
       (\<lambda>e. Inr [])"

definition analyze_content_structure :: "string \<Rightarrow> exn + content_structure" where
  "analyze_content_structure text_content =
     try_except
       (let paragraphs = split ''\<newline>\<newline>'' text_content
        in Inr (Structure (length paragraphs)
             (if paragraphs \<noteq> []
              then (sum_list (map (\<lambda>p. length (split_ws p)) paragraphs), length paragraphs)
              else (0, 1))))
       (\<lambda>e. Inr Empty_structure)"

definition identify_content_elements :: "'soup bs4 \<Rightarrow> string \<Rightarrow> exn + content_elements" where
  "identify_content_elements bs content =
     try_except
       (bind_exn (bs_parse bs content) (\<lambda>soup.
        bind_exn (bs_count bs soup [''ul'', ''ol'']) (\<lambda>lists.
        bind_exn (bs_count bs soup [''table'']) (\<lambda>tables.
        bind_exn (bs_count bs soup [''img'']) (\<lambda>images.
        bind_exn (bs_count bs soup [''a'']) (\<lambda>links.
        bind_exn (bs_count bs soup [''h1'', ''h2'', ''h3'', ''h4'', ''h5'', ''h6'']) (\<lambda>headings.
        Inr (Elements lists tables images links headings))))))))
       (\<lambda>e. Inr Empty_elements)"

definition analyze_content :: "'soup bs4 \<Rightarrow> string \<Rightarrow> exn + analysis" where
  "analyze_content bs content =
     try_except
       (bind_exn (bs_parse bs content) (\<lambda>soup.
        bind_exn (bs_get_text bs soup) (\<lambda>probe.
        bind_exn (if probe \<noteq> [] then bs_get_text bs soup else Inr content) (\<lambda>text_content.
        bind_exn (extract_common_phrases text_content) (\<lambda>phrases.
        bind_exn (analyze_content_structure text_content) (\<lambda>structure.
        bind_exn (extract_key_topics text_content) (\<lambda>topics.
        bind_exn (identify_content_elements bs content) (\<lambda>elements.
        Inr \<lparr> a_word_count = Some (PInt (int (length (split_ws text_content)))),
              a_common_phrases = Some phrases,
              a_content_structure = Some structure,
              a_key_topics = Some (map PStr topics),
              a_content_elements = Some elements \<rparr>))))))))
       (\<lambda>e. Inr empty_analysis)"

text \<open>
  A well-formed analysis is the empty dictionary or has all five keys: a non-negative
  word count, at most 10 phrases and at most 10 topics, the topics strings.
\<close>

definition well_formed_analysis :: "analysis \<Rightarrow> bool" where
  "well_formed_analysis a =
     (a = empty_analysis \<or>
      (case (a_word_count a, a_common_phrases a, a_content_structure a, a_key_topics a,
             a_content_elements a) of
         (Some (PInt n), Some phrases, Some structure, Some topics, Some elements) \<Rightarrow>
           0 \<le> n \<and> length phrases \<le> 10 \<and> length topics \<le> 10 \<and> list_all is_str topics
       | _ \<Rightarrow> False))"

text \<open>
  Two parsers to run the analyzer on: one that rejects every input, one that takes the
  markup as its own text and finds no elements.
\<close>

definition broken_bs :: "unit bs4" where
  "broken_bs = \<lparr> bs_parse = (\<lambda>s. Inl (Exception ''parser rejected the markup'')),
                  bs_get_text = (\<lambda>s. Inr []), bs_count = (\<lambda>s tags. Inr 0) \<rparr>"

definition plain_bs :: "string bs4" where
  "plain_bs = \<lparr> bs_parse = Inr, bs_get_text = Inr, bs_count = (\<lambda>s tags. Inr 0) \<rparr>"

section \<open>analyzer.py: search-result extraction\<close>

text \<open>
  The provider's response (\<open>data: Dict\<close>) is a dictionary; what stands under its keys
  is whatever the provider sent.
\<close>

type_synonym serp_data = pydict

text \<open>The dictionary \<open>extract_serp_data\<close> builds: its four keys are always there.\<close>

record serp_analysis =
  sa_organic_results :: "pydict list"
  sa_paa_questions :: "pydict list"
  sa_related_searches :: "pydict list"
  sa_search_parameters :: pyval

definition organic_result :: "pyval \<Rightarrow> exn + pydict" where
  "organic_result article =
     bind_exn (py_get article ''title'' (PStr '''')) (\<lambda>title.
     bind_exn (py_get article ''link'' (PStr '''')) (\<lambda>link.
     bind_exn (py_get article ''date'' (PStr '''')) (\<lambda>date.
     bind_exn (py_get article ''snippet'' (PStr '''')) (\<lambda>snippet.
     bind_exn (py_get article ''position'' (PStr '''')) (\<lambda>position.
     bind_exn (py_get article ''displayed_link'' (PStr '''')) (\<lambda>displayed_link.
     Inr [(''title'', title), (''link'', link), (''date'', date), (''snippet'', snippet),
          (''position'', position), (''displayed_link'', displayed_link)]))))))"

text \<open>
  The \<open>for\<close> loop appends one result per article; what it runs over is
  \<open>data.get('organic_results', [])\<close>, of whatever shape.
\<close>

definition extract_organic_results :: "serp_data \<Rightarrow> exn + pydict list" where
  "extract_organic_results data =
     bind_exn (py_iter (dict_get data ''organic_results'' (PList []))) (\<lambda>articles.
     map_exn organic_result articles)"

definition paa_question :: "pyval \<Rightarrow> exn + pydict" where
  "paa_question question =
     bind_exn (py_get question ''question'' (PStr '''')) (\<lambda>q.
     bind_exn (py_get question ''snippet'' (PStr '''')) (\<lambda>snippet.
     bind_exn (py_get question ''title'' (PStr '''')) (\<lambda>title.
     Inr [(''question'', q), (''snippet'', snippet), (''title'', title)])))"

definition extract_paa_questions :: "serp_data \<Rightarrow> exn + pydict list" where
  "extract_paa_questions data =
     bind_exn (py_iter (dict_get data ''related_questions'' (PList []))) (\<lambda>questions.
     map_exn paa_question questions)"

definition related_search :: "pyval \<Rightarrow> exn + pydict" where
  "related_search search =
     bind_exn (py_get search ''query'' (PStr '''')) (\<lambda>query. Inr [(''query'', query)])"

definition extract_related_searches :: "serp_data \<Rightarrow> exn + pydict list" where
  "extract_related_searches data =
     bind_exn (py_iter (dict_get data ''related_searches'' (PList []))) (\<lambda>searches.
     map_exn related_search searches)"

definition extract_serp_data :: "serp_data \<Rightarrow> exn + serp_analysis" where
  "extract_serp_data data =
     bind_exn (extract_organic_results data) (\<lambda>organic.
     bind_exn (extract_paa_questions data) (\<lambda>paa.
     bind_exn (extract_related_searches data) (\<lambda>related.
     Inr \<lparr> sa_organic_results = organic,
           sa_paa_questions = paa,
           sa_related_searches = related,
           sa_search_parameters = dict_get data ''search_parameters'' (PDict []) \<rparr>)))"

text \<open>
  The input the extraction is written for: under a key there is nothing, or a list of
  dictionaries. \<open>entries data key\<close> is that list (empty when the key is absent).
\<close>

definition is_dict :: "pyval \<Rightarrow> bool" where
  "is_dict v = (case v of PDict d \<Rightarrow> True | _ \<Rightarrow> False)"

definition listed_dicts :: "serp_data \<Rightarrow> string \<Rightarrow> bool" where
  "listed_dicts data key =
     (case map_of data key of
        None \<Rightarrow> True
      | Some (PList xs) \<Rightarrow> list_all is_dict xs
      | Some v \<Rightarrow> False)"

definition entries :: "serp_data \<Rightarrow> string \<Rightarrow> pyval list" where
  "entries data key = (case map_of data key of Some (PList xs) \<Rightarrow> xs | _ \<Rightarrow> [])"

text \<open>
  What the copy of one entry looks like: the entry is a dictionary, \<open>out\<close> has exactly
  the keys \<open>keys\<close>, in that order, and under each the entry's own value, or the empty
  string where the entry has no such field.
\<close>

definition copied_fields :: "string list \<Rightarrow> pyval \<Rightarrow> pydict \<Rightarrow> bool" where
  "copied_fields keys entry out =
     (case entry of
        PDict d \<Rightarrow>
          map fst out = keys \<and>
          list_all (\<lambda>k. map_of out k = Some (case map_of d k of None \<Rightarrow> PStr '''' | Some v \<Rightarrow> v)) keys
      | _ \<Rightarrow> False)"

section \<open>analyzer.py: the analyzer object and the context assembler\<close>

text \<open>
  \<open>LLMEnhancedAnalyzer\<close>: the two clients are made from the two API keys; the content
  parameters start empty and are set by \<open>set_content_parameters\<close>.
\<close>

record analyzer =
  firecrawl_api_key :: string
  openai_api_key :: string
  article_intent :: string
  secondary_keywords :: "string list"

definition init_analyzer :: "string \<Rightarrow> string \<Rightarrow> analyzer" where
  "init_analyzer firecrawl_key openai_key =
     \<lparr> firecrawl_api_key = firecrawl_key, openai_api_key = openai_key,
       article_intent = [], secondary_keywords = [] \<rparr>"

definition set_content_parameters :: "analyzer \<Rightarrow> string \<Rightarrow> string list \<Rightarrow> analyzer" where
  "set_content_parameters self intent keywords =
     self\<lparr> article_intent := intent, secondary_keywords := keywords \<rparr>"

text \<open>
  A scraped page: \<open>{'url': ..., 'content': ..., 'analysis': ...}\<close>. The formatters read
  it with \<open>.get\<close>, so each key is optional.
\<close>

record profile =
  p_url :: "pyval option"
  p_content :: "string option"
  p_analysis :: "analysis option"

definition format_top_articles :: "pydict list \<Rightarrow> exn + string" where
  "format_top_articles results =
     try_except
       (bind_exn
          (map_exn (\<lambda>result.
             bind_exn (dict_getitem result ''title'') (\<lambda>title.
             bind_exn (dict_getitem result ''link'') (\<lambda>link.
             Inr (''- '' @ py_str title @ '' (URL: '' @ py_str link @ '')''))))
            (take 5 results))
          (\<lambda>lines. Inr (join ''\<newline>'' lines)))
       (\<lambda>e. Inr [])"

definition format_paa_questions :: "pydict list \<Rightarrow> exn + string" where
  "format_paa_questions questions =
     try_except
       (bind_exn
          (map_exn (\<lambda>q.
             bind_exn (dict_getitem q ''question'') (\<lambda>question.
             Inr (''- '' @ py_str question)))
            questions)
          (\<lambda>lines. Inr (join ''\<newline>'' lines)))
       (\<lambda>e. Inr [])"

definition format_related_searches :: "pydict list \<Rightarrow> exn + string" where
  "format_related_searches searches =
     try_except
       (bind_exn
          (map_exn (\<lambda>search.
             bind_exn (dict_getitem search ''query'') (\<lambda>query.
             Inr (''- '' @ py_str query)))
            searches)
          (\<lambda>lines. Inr (join ''\<newline>'' lines)))
       (\<lambda>e. Inr [])"

definition format_competitor_content :: "profile list \<Rightarrow> exn + string" where
  "format_competitor_content scraped_data =
     try_except
       (bind_exn
          (map_exn (\<lambda>data.
             let analysis = key_get (p_analysis data) empty_analysis
             in bind_exn (py_join '', '' (take 5 (key_get (a_key_topics analysis) []))) (\<lambda>topics.
                Inr (''URL: '' @ py_str (key_get (p_url data) (PStr ''''))
                     @ ''\<newline>Word Count: '' @ py_str (key_get (a_word_count analysis) (PInt 0))
                     @ ''\<newline>Key Topics: '' @ topics)))
            scraped_data)
          (\<lambda>summaries. Inr (join ''\<newline>\<newline>'' summaries)))
       (\<lambda>e. Inr [])"

text \<open>\<open>format_citation_data\<close> has no \<open>try\<close> around its loop.\<close>

definition format_citation_data :: "profile list \<Rightarrow> exn + string" where
  "format_citation_data citation_data =
     bind_exn
       (map_exn (\<lambda>data.
          let analysis = key_get (p_analysis data) empty_analysis
          in bind_exn (py_join '', '' (take 5 (key_get (a_key_topics analysis) []))) (\<lambda>topics.
             Inr (''URL: '' @ py_str (key_get (p_url data) (PStr ''''))
                  @ ''\<newline>Word Count: '' @ py_str (key_get (a_word_count analysis) (PInt 0))
                  @ ''\<newline>Key Topics: '' @ topics)))
         citation_data)
       (\<lambda>summaries. Inr (join ''\<newline>\<newline>'' summaries))"

definition prepare_llm_context ::
  "analyzer \<Rightarrow> profile list \<Rightarrow> serp_data \<Rightarrow> string \<Rightarrow> profile list \<Rightarrow> exn + string" where
  "prepare_llm_context self scraped_data serp_data deep_thinking citation_data =
     bind_exn (extract_serp_data serp_data) (\<lambda>serp_analysis.
         bind_exn (format_citation_data citation_data) (\<lambda>citations_formatted.
         bind_exn (py_get (dict_get serp_data ''search_parameters'' (PDict [])) ''q'' (PStr '''')) (\<lambda>q.
         bind_exn (format_top_articles (sa_organic_results serp_analysis)) (\<lambda>top_articles.
         bind_exn (format_paa_questions (sa_paa_questions serp_analysis)) (\<lambda>paa.
         bind_exn (format_related_searches (sa_related_searches serp_analysis)) (\<lambda>related.
         bind_exn (format_competitor_content scraped_data) (\<lambda>competitors.
         Inr (''\<newline>Search Query: '' @ py_str q
              @ ''\<newline>\<newline>Content Parameters:\<newline>Article Intent: '' @ article_intent self
              @ ''\<newline>Secondary Keywords: '' @ join '', '' (secondary_keywords self)
              @ ''\<newline>\<newline>--- Top Ranking Articles ---\<newline>'' @ top_articles
              @ ''\<newline>\<newline>--- People Also Ask Questions ---\<newline>'' @ paa
              @ ''\<newline>\<newline>--- Related Searches ---\<newline>'' @ related
              @ ''\<newline>\<newline>--- Competitor Content Analysis ---\<newline>'' @ competitors
              @ ''\<newline>\<newline>--- Deep Research Thinking Process ---\<newline>'' @ deep_thinking
              @ ''\<newline>\<newline>--- Citation Content from Deep Research ---\<newline>''
              @ citations_formatted @ ''\<newline>''))))))))"

text \<open>
  The research report carries a time stamp: \<open>now\<close> is what
  \<open>datetime.now().strftime('%Y-%m-%d %H:%M:%S')\<close> reads off the clock.
\<close>

definition generate_research_report :: "string \<Rightarrow> string \<Rightarrow> profile list \<Rightarrow> exn + string" where
  "generate_research_report now deep_thinking scraped_data =
     bind_exn (format_competitor_content scraped_data) (\<lambda>competitor_summary.
     Inr (''=== Research Report ===\<newline>\<newline>Deep Research Thinking Process:\<newline>''
          @ deep_thinking
          @ ''\<newline>\<newline>--- Competitor Content Analysis Summary ---\<newline>''
          @ competitor_summary
          @ ''\<newline>\<newline>Generated on: '' @ now @ ''\<newline>''))"

text \<open>
  The lines and blocks of the assembled context, as the specification words them: a
  top article is its title and link, a question and a related search are one line, a
  profile is summarised by URL, word count and the first five key topics.
\<close>

definition field :: "pyval \<Rightarrow> string \<Rightarrow> pyval" where
  "field entry k =
     (case entry of
        PDict d \<Rightarrow> (case map_of d k of None \<Rightarrow> PStr '''' | Some v \<Rightarrow> v)
      | _ \<Rightarrow> PStr '''')"

definition article_line :: "pyval \<Rightarrow> string" where
  "article_line article =
     ''- '' @ py_str (field article ''title'') @ '' (URL: '' @ py_str (field article ''link'') @ '')''"

definition question_line :: "pyval \<Rightarrow> string" where
  "question_line question = ''- '' @ py_str (field question ''question'')"

definition search_line :: "pyval \<Rightarrow> string" where
  "search_line search = ''- '' @ py_str (field search ''query'')"

text \<open>
  A response typed as the provider's schema types it: each of the three lists is absent
  or a list of dictionaries, and the search parameters are absent or a dictionary.
\<close>

definition typed_response :: "serp_data \<Rightarrow> bool" where
  "typed_response data =
     (listed_dicts data ''organic_results'' \<and> listed_dicts data ''related_questions'' \<and>
      listed_dicts data ''related_searches'' \<and>
      (case map_of data ''search_parameters'' of None \<Rightarrow> True | Some v \<Rightarrow> is_dict v))"

definition profile_topics :: "profile \<Rightarrow> pyval list" where
  "profile_topics p =
     take 5 (case p_analysis p of None \<Rightarrow> []
             | Some a \<Rightarrow> (case a_key_topics a of None \<Rightarrow> [] | Some ts \<Rightarrow> ts))"

definition summary_block :: "profile \<Rightarrow> string" where
  "summary_block p =
     ''URL: '' @ py_str (case p_url p of None \<Rightarrow> PStr '''' | Some u \<Rightarrow> u)
     @ ''\<newline>Word Count: ''
     @ py_str (case p_analysis p of None \<Rightarrow> PInt 0
               | Some a \<Rightarrow> (case a_word_count a of None \<Rightarrow> PInt 0 | Some n \<Rightarrow> n))
     @ ''\<newline>Key Topics: '' @ join '', '' (map the_str (profile_topics p))"

text \<open>A profile as the data model types it: its key topics are strings.\<close>

definition topics_are_strings :: "profile \<Rightarrow> bool" where
  "topics_are_strings p = list_all is_str (profile_topics p)"

text \<open>
  The end-to-end scenario of the specification: the query \<open>concrete mixing ratios\<close>,
  3 organic results, 2 questions, 1 related search, 2 competitor profiles with word
  counts 500 and 800, no citations.
\<close>

definition scenario_serp :: serp_data where
  "scenario_serp =
     [(''search_parameters'', PDict [(''q'', PStr ''concrete mixing ratios'')]),
      (''organic_results'', PList
         [PDict [(''title'', PStr ''Mix basics''), (''link'', PStr ''https://a.example/mix''),
                 (''position'', PInt 1)],
          PDict [(''title'', PStr ''Ratios explained''), (''link'', PStr ''https://b.example/ratios'')],
          PDict [(''title'', PStr ''Concrete guide''), (''link'', PStr ''https://c.example/guide'')]]),
      (''related_questions'', PList
         [PDict [(''question'', PStr ''What is the 1:2:3 mix?'')],
          PDict [(''question'', PStr ''How much water per bag?'')]]),
      (''related_searches'', PList [PDict [(''query'', PStr ''concrete mix calculator'')]])]"

definition scenario_profiles :: "profile list" where
  "scenario_profiles =
     [\<lparr> p_url = Some (PStr ''https://a.example/mix''), p_content = Some ''<p>mix</p>'',
        p_analysis = Some \<lparr> a_word_count = Some (PInt 500), a_common_phrases = Some [],
          a_content_structure = Some (Structure 1 (500, 1)),
          a_key_topics = Some [PStr ''concrete'', PStr ''mix'', PStr ''water'', PStr ''sand'',
                               PStr ''cement'', PStr ''gravel''],
          a_content_elements = Some (Elements 0 0 0 0 0) \<rparr> \<rparr>,
      \<lparr> p_url = Some (PStr ''https://b.example/ratios''), p_content = Some '''',
        p_analysis = Some (empty_analysis\<lparr> a_word_count := Some (PInt 800) \<rparr>) \<rparr>]"

text \<open>A profile with a key topic that is not a string, and a response with a null list.\<close>

definition untyped_profile :: profile where
  "untyped_profile =
     \<lparr> p_url = Some (PStr ''https://c.example/guide''), p_content = Some '''',
       p_analysis = Some (empty_analysis\<lparr> a_key_topics := Some [PInt 1] \<rparr>) \<rparr>"

definition null_serp :: serp_data where
  "null_serp = [(''organic_results'', PNone)]"

definition scenario_analyzer :: analyzer where
  "scenario_analyzer =
     set_content_parameters (init_analyzer ''fc-key'' ''oa-key'') ''informational''
       [''cement'', ''mortar'']"

section \<open>The outside world: scraping and search providers\<close>

text \<open>
  The network calls and \<open>time.sleep\<close> act on a world \<open>'w\<close> that the model passes along:
  a call takes the world, returns its outcome (a value or the exception it raised) and
  the world after it. The providers are parameters. \<open>print\<close> is left out: it changes
  no value and no control flow.
\<close>

record scrape_result =
  html :: "string option"
  markdown :: "string option"

record response =
  status_code :: nat
  json :: "exn + serp_data"

text \<open>
  What \<open>client.messages.create\<close> returns, if anything: \<open>message.content\<close> is a list of
  blocks, here the \<open>text\<close> of each.
\<close>

record message =
  content_texts :: "string list"

record 'w services =
  scrape_url :: "string \<Rightarrow> 'w \<Rightarrow> (exn + scrape_result) \<times> 'w"
  requests_get :: "string \<Rightarrow> 'w \<Rightarrow> (exn + response) \<times> 'w"
  messages_create :: "string \<Rightarrow> 'w \<Rightarrow> (exn + message option) \<times> 'w"
  sleep :: "nat \<Rightarrow> 'w \<Rightarrow> 'w"

section \<open>analyzer.py: scraping\<close>

text \<open>
  The body of the inner \<open>try\<close>: read the content off the result, analyze it, build the
  profile. Any exception of the scrape or of the body is one failed attempt.
\<close>

definition scraped_profile :: "'soup bs4 \<Rightarrow> string \<Rightarrow> exn + scrape_result \<Rightarrow> exn + profile" where
  "scraped_profile bs url outcome =
     bind_exn outcome (\<lambda>result.
       let content = key_get (html result) (key_get (markdown result) [])
       in bind_exn (analyze_content bs content) (\<lambda>analysis.
          Inr \<lparr> p_url = Some (PStr url), p_content = Some content, p_analysis = Some analysis \<rparr>))"

text \<open>
  \<open>for attempt in range(max_retries)\<close> with \<open>n\<close> attempts left: a success appends the
  profile and breaks; a failure sleeps 5 seconds and goes round again, except on the
  last attempt, which only reports. When the range is used up nothing was appended.
\<close>

fun competitor_attempts ::
  "'w services \<Rightarrow> 'soup bs4 \<Rightarrow> string \<Rightarrow> nat \<Rightarrow> nat \<Rightarrow> profile list \<Rightarrow> 'w \<Rightarrow> profile list \<times> 'w" where
  "competitor_attempts sv bs url max_retries 0 scraped_content w = (scraped_content, w)"
| "competitor_attempts sv bs url max_retries (Suc n) scraped_content w =
     (let attempt = max_retries - Suc n;
          (outcome, w1) = scrape_url sv url w
      in case scraped_profile bs url outcome of
           Inr content_data \<Rightarrow> (scraped_content @ [content_data], w1)
         | Inl e \<Rightarrow>
             if attempt = max_retries - 1
             then competitor_attempts sv bs url max_retries n scraped_content w1
             else competitor_attempts sv bs url max_retries n scraped_content (sleep sv 5 w1))"

fun competitor_urls ::
  "'w services \<Rightarrow> 'soup bs4 \<Rightarrow> string list \<Rightarrow> profile list \<Rightarrow> 'w \<Rightarrow> profile list \<times> 'w" where
  "competitor_urls sv bs [] scraped_content w = (scraped_content, w)"
| "competitor_urls sv bs (url # urls) scraped_content w =
     (let (scraped_content', w') = competitor_attempts sv bs url 3 3 scraped_content w
      in competitor_urls sv bs urls scraped_content' w')"

definition scrape_competitor_content ::
  "'w services \<Rightarrow> 'soup bs4 \<Rightarrow> string list \<Rightarrow> 'w \<Rightarrow> profile list \<times> 'w" where
  "scrape_competitor_content sv bs urls w = competitor_urls sv bs urls [] w"

text \<open>\<open>scrape_citations\<close> is the same loop over the citation URLs.\<close>

fun citation_attempts ::
  "'w services \<Rightarrow> 'soup bs4 \<Rightarrow> string \<Rightarrow> nat \<Rightarrow> nat \<Rightarrow> profile list \<Rightarrow> 'w \<Rightarrow> profile list \<times> 'w" where
  "citation_attempts sv bs url max_retries 0 citation_content w = (citation_content, w)"
| "citation_attempts sv bs url max_retries (Suc n) citation_content w =
     (let attempt = max_retries - Suc n;
          (outcome, w1) = scrape_url sv url w
      in case scraped_profile bs url outcome of
           Inr citation_data \<Rightarrow> (citation_content @ [citation_data], w1)
         | Inl e \<Rightarrow>
             if attempt = max_retries - 1
             then citation_attempts sv bs url max_retries n citation_content w1
             else citation_attempts sv bs url max_retries n citation_content (sleep sv 5 w1))"

fun citation_urls ::
  "'w services \<Rightarrow> 'soup bs4 \<Rightarrow> string list \<Rightarrow> profile list \<Rightarrow> 'w \<Rightarrow> profile list \<times> 'w" where
  "citation_urls sv bs [] citation_content w = (citation_content, w)"
| "citation_urls sv bs (url # urls) citation_content w =
     (let (citation_content', w') = citation_attempts sv bs url 3 3 citation_content w
      in citation_urls sv bs urls citation_content' w')"

definition scrape_citations ::
  "'w services \<Rightarrow> 'soup bs4 \<Rightarrow> string list \<Rightarrow> 'w \<Rightarrow> profile list \<times> 'w" where
  "scrape_citations sv bs urls w = citation_urls sv bs urls [] w"

section \<open>serp.py\<close>

definition empty_serp :: serp_data where
  "empty_serp = []"

text \<open>
  \<open>for attempt in range(max_retries)\<close> with \<open>n\<close> attempts left. A 200 response returns its
  JSON; another status is reported and the loop goes on; a \<open>RequestException\<close> (of the
  call or of \<open>response.json()\<close>) sleeps 2 seconds and goes on, or returns \<open>{}\<close> on the last
  attempt; any other exception is not caught. After the loop the result is \<open>{}\<close>.
  \<open>SERPAPI_KEY\<close> is what \<open>st.secrets\<close> holds under that name (empty when unset); the
  other request parameters (result count, language, country) only go to the provider.
\<close>

fun search_attempts ::
  "'w services \<Rightarrow> string \<Rightarrow> nat \<Rightarrow> nat \<Rightarrow> 'w \<Rightarrow> (exn + serp_data) \<times> 'w" where
  "search_attempts sv query max_retries 0 w = (Inr empty_serp, w)"
| "search_attempts sv query max_retries (Suc n) w =
     (let attempt = max_retries - Suc n;
          (outcome, w1) = requests_get sv query w;
          body = bind_exn outcome (\<lambda>response.
                   if status_code response = 200
                   then bind_exn (json response) (\<lambda>j. Inr (Some j))
                   else Inr None)
      in case body of
           Inr (Some j) \<Rightarrow> (Inr j, w1)
         | Inr None \<Rightarrow> search_attempts sv query max_retries n w1
         | Inl e \<Rightarrow>
             if e = RequestException
             then (if attempt = max_retries - 1 then (Inr empty_serp, w1)
                   else search_attempts sv query max_retries n (sleep sv 2 w1))
             else (Inl e, w1))"

definition get_search_results ::
  "'w services \<Rightarrow> string \<Rightarrow> string \<Rightarrow> 'w \<Rightarrow> (exn + serp_data) \<times> 'w" where
  "get_search_results sv SERPAPI_KEY query w =
     (if SERPAPI_KEY = [] then (Inr empty_serp, w)
      else search_attempts sv query 3 3 w)"

section \<open>main_streamlit.py: the research excerpt\<close>

text \<open>
  \<open>find_sub sub s\<close> is \<open>s.find(sub)\<close>: where \<open>sub\<close> first occurs in \<open>s\<close>, if it does.
\<close>

fun find_sub :: "string \<Rightarrow> string \<Rightarrow> nat option" where
  "find_sub sub [] = (if sub = [] then Some 0 else None)"
| "find_sub sub (c # cs) =
     (if prefix sub (c # cs) then Some 0 else map_option Suc (find_sub sub cs))"

text \<open>
  \<open>re.sub(r'<think>.*?</think>', '', s, flags=re.DOTALL)\<close>. At a position the pattern
  matches when the text there starts with the opening tag and a closing tag follows;
  the lazy \<open>.*?\<close> ends the match at the first closing tag. Matches are found left to
  right and do not overlap: \<open>skip\<close> counts the characters of a match still to pass over.
\<close>

definition think_match :: "string \<Rightarrow> nat option" where
  "think_match s =
     (if prefix ''<think>'' s
      then (case find_sub ''</think>'' (drop 7 s) of
              Some i \<Rightarrow> Some (7 + i + 8)
            | None \<Rightarrow> None)
      else None)"

fun sub_think :: "nat \<Rightarrow> string \<Rightarrow> string" where
  "sub_think skip [] = []"
| "sub_think (Suc n) (c # cs) = sub_think n cs"
| "sub_think 0 (c # cs) =
     (case think_match (c # cs) of
        Some k \<Rightarrow> sub_think (k - 1) cs
      | None \<Rightarrow> c # sub_think 0 cs)"

text \<open>\<open>xs[0]\<close> raises \<open>IndexError\<close> on the empty list.\<close>

definition first_item :: "'a list \<Rightarrow> exn + 'a" where
  "first_item xs = (case xs of [] \<Rightarrow> Inl IndexError | x # rest \<Rightarrow> Inr x)"

text \<open>
  \<open>extract_research_content\<close>. The handler returns \<open>research_text\<close> as it stands when
  the exception comes; the one statement that could raise is the \<open>split_text[0]\<close>, by
  which time the thinking spans and the banner have been removed.
\<close>

definition extract_research_content :: "string \<Rightarrow> exn + string" where
  "extract_research_content research_text =
     (let without_think =
            (if contains ''<think>'' research_text \<and> contains ''</think>'' research_text
             then sub_think 0 research_text else research_text);
          without_banner = remove_all ''=== Research Report ==='' 0 without_think
      in try_except
           (bind_exn
              (if contains ''--- Competitor Content Analysis Summary ---'' without_banner
               then bind_exn
                      (first_item (split ''--- Competitor Content Analysis Summary ---'' without_banner))
                      (\<lambda>piece. Inr (strip piece))
               else Inr without_banner)
              (\<lambda>cleaned. Inr (strip cleaned)))
           (\<lambda>e. Inr without_banner))"

text \<open>
  The excerpt as the specification words it: the text with every thinking span removed
  and everything from the first competitor-summary marker onward cut off.
\<close>

definition cut_at :: "string \<Rightarrow> string \<Rightarrow> string" where
  "cut_at marker s = (case find_sub marker s of None \<Rightarrow> s | Some i \<Rightarrow> take i s)"

definition claimed_excerpt :: "string \<Rightarrow> string" where
  "claimed_excerpt research_text =
     cut_at ''--- Competitor Content Analysis Summary ---'' (sub_think 0 research_text)"

text \<open>
  A research report as \<open>generate_research_report\<close> writes it, for a deep-research answer
  that opens with a thinking span.
\<close>

definition scenario_report :: string where
  "scenario_report =
     ''=== Research Report ===\<newline>\<newline>Deep Research Thinking Process:\<newline><think>plan the answer</think>Mix 1:2:3.\<newline>\<newline>--- Competitor Content Analysis Summary ---\<newline>URL: https://b.example/ratios\<newline>Word Count: 800\<newline>Key Topics: \<newline>\<newline>Generated on: 2025-01-01 00:00:00\<newline>''"

section \<open>main_streamlit.py: the blog stage\<close>

text \<open>\<open>str(e)\<close>: the message an exception carries.\<close>

fun exn_str :: "exn \<Rightarrow> string" where
  "exn_str (KeyError k) = CHR 0x27 # k @ [CHR 0x27]"
| "exn_str (ValueError msg) = msg"
| "exn_str (Exception msg) = msg"
| "exn_str e = []"

text \<open>
  \<open>generate_blog_content\<close>. \<open>guidelines\<close> is the fixed instruction text of the prompt,
  up to the outline. A missing key raises \<open>ValueError\<close> before the \<open>try\<close>; inside it,
  an exception of the model call, a missing message and an empty content all end in
  the handler, which raises \<open>Exception\<close> anew: there is no value to fall back on.
\<close>

definition blog_prompt :: "string \<Rightarrow> string \<Rightarrow> string option \<Rightarrow> string" where
  "blog_prompt guidelines outline_content research_content =
     guidelines @ outline_content @ ''\<newline>''
     @ (case research_content of
          None \<Rightarrow> []
        | Some research \<Rightarrow>
            if research \<noteq> []
            then ''\<newline>Additionally, here is supplementary research that contains valuable insights and information about the topic:\<newline>\<newline>''
                 @ research @ ''\<newline>''
            else [])
     @ ''\<newline>Based on the provided outline and research, generate a complete blog article that follows all the guidelines provided.\<newline>''"

definition generate_blog_content ::
  "'w services \<Rightarrow> string \<Rightarrow> string \<Rightarrow> string \<Rightarrow> string option \<Rightarrow> 'w \<Rightarrow> (exn + string) \<times> 'w" where
  "generate_blog_content sv ANTHROPIC_API_KEY guidelines outline_content research_content w =
     (if ANTHROPIC_API_KEY = []
      then (Inl (ValueError ''ANTHROPIC_API_KEY not found in environment variables''), w)
      else
        let (outcome, w1) =
              messages_create sv (blog_prompt guidelines outline_content research_content) w
        in (try_except
              (bind_exn outcome (\<lambda>message.
                 case message of
                   None \<Rightarrow> Inl (ValueError ''No content received from Claude API'')
                 | Some m \<Rightarrow>
                     if content_texts m = []
                     then Inl (ValueError ''No content received from Claude API'')
                     else first_item (content_texts m)))
              (\<lambda>e. Inl (Exception (''Error generating content: '' @ exn_str e))),
            w1))"

text \<open>
  \<open>main\<close>, from the blog stage to the three tabs (the PDF button after them is left
  out). What the page shows is a list of elements; \<open>generate_clicked\<close> is what
  \<open>st.button("Generate Blog Content")\<close> returns. The whole stage runs inside the
  \<open>try\<close> of \<open>main\<close>, whose handler shows the one line \<open>Error during analysis\<close>.
\<close>

datatype ui =
    Show_outline string
  | Show_report string
  | Show_blog string
  | Ui_error string
  | Ui_info string

definition auto_blog ::
  "'w services \<Rightarrow> string \<Rightarrow> string \<Rightarrow> bool \<Rightarrow> string \<Rightarrow> string \<Rightarrow> 'w \<Rightarrow>
     (exn + string option) \<times> 'w" where
  "auto_blog sv ANTHROPIC_API_KEY guidelines auto_generate enhanced_outline research_report w =
     (if auto_generate \<and> ANTHROPIC_API_KEY \<noteq> []
      then (case extract_research_content research_report of
              Inl e \<Rightarrow> (Inl e, w)
            | Inr research_content \<Rightarrow>
                (case generate_blog_content sv ANTHROPIC_API_KEY guidelines enhanced_outline
                        (Some research_content) w of
                   (Inl e, w1) \<Rightarrow> (Inl e, w1)
                 | (Inr blog_content, w1) \<Rightarrow> (Inr (Some blog_content), w1)))
      else (Inr None, w))"

definition manual_blog ::
  "'w services \<Rightarrow> string \<Rightarrow> string \<Rightarrow> string \<Rightarrow> string \<Rightarrow> 'w \<Rightarrow> ui list \<times> 'w" where
  "manual_blog sv ANTHROPIC_API_KEY guidelines enhanced_outline research_report w =
     (case extract_research_content research_report of
        Inl e \<Rightarrow>
          ([Ui_error (''Error during content generation: '' @ exn_str e),
            Ui_info ''Please make sure your ANTHROPIC_API_KEY is correctly set in the .env file''], w)
      | Inr research_content \<Rightarrow>
          (case generate_blog_content sv ANTHROPIC_API_KEY guidelines enhanced_outline
                  (Some research_content) w of
             (Inl e, w1) \<Rightarrow>
               ([Ui_error (''Error during content generation: '' @ exn_str e),
                 Ui_info ''Please make sure your ANTHROPIC_API_KEY is correctly set in the .env file''], w1)
           | (Inr blog_content, w1) \<Rightarrow>
               (if blog_content \<noteq> [] then [Show_blog blog_content]
                else [Ui_error ''No content was generated. Please check your API key and try again.''],
                w1)))"

definition main_results ::
  "'w services \<Rightarrow> string \<Rightarrow> string \<Rightarrow> bool \<Rightarrow> bool \<Rightarrow> string \<Rightarrow> string \<Rightarrow> 'w \<Rightarrow> ui list \<times> 'w" where
  "main_results sv ANTHROPIC_API_KEY guidelines auto_generate generate_clicked
       enhanced_outline research_report w =
     (case auto_blog sv ANTHROPIC_API_KEY guidelines auto_generate enhanced_outline research_report w of
        (Inl e, w1) \<Rightarrow> ([Ui_error (''Error during analysis: '' @ exn_str e)], w1)
      | (Inr blog_content, w1) \<Rightarrow>
          (let (tab3, w2) =
                 (if blog_content \<noteq> None \<and> blog_content \<noteq> Some []
                  then ([Show_blog (key_get blog_content [])], w1)
                  else if \<not> auto_generate
                  then (if generate_clicked
                        then manual_blog sv ANTHROPIC_API_KEY guidelines enhanced_outline
                               research_report w1
                        else ([], w1))
                  else ([Ui_error ''Content generation failed or was not attempted. Please check your API keys.''], w1))
           in ([Show_outline enhanced_outline, Show_report research_report] @ tab3, w2)))"

text \<open>
  The model call gave no content: it raised, returned no message, or a message whose
  content is empty. \<open>excerpt\<close> is the research excerpt handed to the blog generator.
\<close>

definition no_content :: "exn + message option \<Rightarrow> bool" where
  "no_content outcome =
     (case outcome of
        Inl e \<Rightarrow> True
      | Inr None \<Rightarrow> True
      | Inr (Some m) \<Rightarrow> content_texts m = [])"

definition excerpt :: "string \<Rightarrow> string" where
  "excerpt research_report =
     strip (cut_at ''--- Competitor Content Analysis Summary ---''
              (remove_all ''=== Research Report ==='' 0 (sub_think 0 research_report)))"

section \<open>Fetching: the notions the statements use\<close>

text \<open>
  The content the scrapers read off a scrape result, \<open>result.get('html', result.get('markdown',
  ''))\<close>, and the profile they build from it and its analysis.

  A profile of \<open>url\<close> as the scrapers build it: the URL, some content and the well-formed
  analysis \<open>analyze_content\<close> returns on that content. One URL contributes nothing or one such
  profile.
\<close>

definition page_content :: "scrape_result \<Rightarrow> string" where
  "page_content result = key_get (html result) (key_get (markdown result) [])"

definition page_profile :: "string \<Rightarrow> scrape_result \<Rightarrow> analysis \<Rightarrow> profile" where
  "page_profile url result a =
     \<lparr> p_url = Some (PStr url), p_content = Some (page_content result), p_analysis = Some a \<rparr>"

definition profile_of :: "'soup bs4 \<Rightarrow> string \<Rightarrow> profile \<Rightarrow> bool" where
  "profile_of bs url p =
     (p_url p = Some (PStr url) \<and>
      (case p_content p of None \<Rightarrow> False
       | Some content \<Rightarrow>
           (case p_analysis p of None \<Rightarrow> False
            | Some a \<Rightarrow> analyze_content bs content = Inr a \<and> well_formed_analysis a)))"

definition contribution :: "'soup bs4 \<Rightarrow> string \<Rightarrow> profile list \<Rightarrow> bool" where
  "contribution bs url c = (c = [] \<or> (\<exists>p. c = [p] \<and> profile_of bs url p))"

text \<open>
  A search attempt fails when the call raises a \<open>RequestException\<close> or answers with a
  status other than 200; after the former the fetcher sleeps 2 seconds.
\<close>

definition fetch_failed :: "exn + response \<Rightarrow> bool" where
  "fetch_failed outcome =
     (case outcome of Inl e \<Rightarrow> e = RequestException | Inr r \<Rightarrow> status_code r \<noteq> 200)"

definition after_failure :: "'w services \<Rightarrow> exn + response \<Rightarrow> 'w \<Rightarrow> 'w" where
  "after_failure sv outcome w = (case outcome of Inl e \<Rightarrow> sleep sv 2 w | Inr r \<Rightarrow> w)"

text \<open>
  Providers to run the fetchers against. The world is the number of calls made so far:
  the first two calls fail, later ones succeed, and the host \<open>down.example\<close> and the
  query \<open>down\<close> fail always. The blog model answers every prompt with a message that
  has no content.
\<close>

definition url_services :: "nat services" where
  "url_services =
     \<lparr> scrape_url = (\<lambda>url w.
         (if url = ''https://down.example'' \<or> w < 2 then Inl (Exception ''timed out'')
          else Inr \<lparr> html = Some ''<p>ok</p>'', markdown = None \<rparr>, Suc w)),
       requests_get = (\<lambda>query w.
         (if query = ''down'' \<or> w < 2 then Inl RequestException
          else Inr \<lparr> status_code = 200, json = Inr scenario_serp \<rparr>, Suc w)),
       messages_create = (\<lambda>prompt w. (Inr (Some \<lparr> content_texts = [] \<rparr>), Suc w)),
       sleep = (\<lambda>seconds w. w) \<rparr>"


section \<open>Frequency ranking: proofs\<close>

lemma first_index_less: "x \<in> set xs \<Longrightarrow> first_index xs x < length xs"
  unfolding first_index_def
  by (induction xs) auto

lemma first_index_snoc_old: "a \<in> set xs \<Longrightarrow> first_index (xs @ [x]) a = first_index xs a"
  unfolding first_index_def by (simp add: takeWhile_append1)

lemma first_index_snoc_new: "x \<notin> set xs \<Longrightarrow> first_index (xs @ [x]) x = length xs"
  unfolding first_index_def by (induction xs) auto

lemma Counter_snoc: "Counter (xs @ [x]) = counter_add (Counter xs) x"
  by (simp add: Counter_def)

lemma keys_counter_add:
  "map fst (counter_add c x) = (if x \<in> set (map fst c) then map fst c else map fst c @ [x])"
  by (simp add: counter_add_def update_keys)

lemma set_keys_Counter: "set (map fst (Counter xs)) = set xs"
  by (induction xs rule: rev_induct) (auto simp: Counter_snoc keys_counter_add Counter_def)

lemma distinct_keys_Counter: "distinct (map fst (Counter xs))"
proof (induction xs rule: rev_induct)
  case Nil
  show ?case by (simp add: Counter_def)
next
  case (snoc x xs)
  then show ?case by (simp add: Counter_snoc keys_counter_add)
qed

lemma map_of_Counter:
  "map_of (Counter xs) w = (if w \<in> set xs then Some (count_list xs w) else None)"
proof (induction xs rule: rev_induct)
  case Nil
  show ?case by (simp add: Counter_def)
next
  case (snoc x xs)
  then show ?case
    by (auto simp: Counter_snoc counter_add_def update_conv' count_list_0_iff)
qed

lemma Counter_item: "(w, n) \<in> set (Counter xs) \<Longrightarrow> w \<in> set xs \<and> n = count_list xs w"
  using map_of_Counter [of xs w] distinct_keys_Counter [of xs]
  by (auto split: if_splits dest: map_of_SomeD simp: map_of_eq_Some_iff)

lemma keys_Counter_order:
  "sorted_wrt (\<lambda>a b. first_index xs a < first_index xs b) (map fst (Counter xs))"
proof (induction xs rule: rev_induct)
  case Nil
  show ?case by (simp add: Counter_def)
next
  case (snoc x xs)
  have old: "sorted_wrt (\<lambda>a b. first_index (xs @ [x]) a < first_index (xs @ [x]) b) (map fst (Counter xs))"
    using snoc
    by (rule sorted_wrt_mono_rel [rotated]) (simp add: set_keys_Counter first_index_snoc_old del: set_map)
  show ?case
  proof (cases "x \<in> set xs")
    case True
    then show ?thesis using old by (simp add: Counter_snoc keys_counter_add set_keys_Counter del: set_map)
  next
    case False
    then show ?thesis using old
      by (auto simp: Counter_snoc keys_counter_add set_keys_Counter sorted_wrt_append
          first_index_snoc_old first_index_snoc_new first_index_less simp del: set_map)
  qed
qed

lemma sorted_wrt_insort_key_stable:
  fixes f :: "'a \<Rightarrow> int"
  assumes "sorted_wrt (\<lambda>a b. f a < f b \<or> (f a = f b \<and> R a b)) ys" and "\<forall>y \<in> set ys. R x y"
  shows "sorted_wrt (\<lambda>a b. f a < f b \<or> (f a = f b \<and> R a b)) (insort_key f x ys)"
  using assms
proof (induction ys)
  case Nil
  then show ?case by simp
next
  case (Cons y ys)
  show ?case
  proof (cases "f x \<le> f y")
    case True
    have "f x < f z \<or> (f x = f z \<and> R x z)" if "z \<in> set (y # ys)" for z
    proof -
      have "f y \<le> f z" using Cons.prems(1) that by auto
      with True Cons.prems(2) that show ?thesis by force
    qed
    with True Cons.prems(1) show ?thesis by simp
  next
    case False
    with Cons show ?thesis by (auto simp: set_insort_key)
  qed
qed

lemma sorted_wrt_sort_key_stable:
  fixes f :: "'a \<Rightarrow> int"
  assumes "sorted_wrt R xs"
  shows "sorted_wrt (\<lambda>a b. f a < f b \<or> (f a = f b \<and> R a b)) (sort_key f xs)"
  using assms
proof (induction xs)
  case Nil
  then show ?case by simp
next
  case (Cons x xs)
  then show ?case by (simp add: sorted_wrt_insort_key_stable)
qed

lemma top_of_ranking:
  assumes "distinct full" and "set full = set toks" and "sorted_wrt (ranks_before toks) full"
  shows "top_ranked n toks (take n full)"
proof -
  have len: "length (take n full) = min n (card (set toks))"
    using assms(1,2) distinct_card [of full] by (simp add: min.commute)
  have split: "sorted_wrt (ranks_before toks) (take n full @ drop n full)"
    using assms(3) by simp
  have rest: "ranks_before toks x w"
    if "w \<in> set toks - set (take n full)" and "x \<in> set (take n full)" for w x
  proof -
    have "w \<in> set (take n full @ drop n full)" using that(1) assms(2) by simp
    then have "w \<in> set (drop n full)" using that(1) by (simp only: set_append) blast
    with split that(2) show ?thesis by (simp only: sorted_wrt_append)
  qed
  have sub: "set (take n full) \<subseteq> set toks"
    using set_take_subset [of n full] assms(2) by simp
  have srt: "sorted_wrt (ranks_before toks) (take n full)"
    using split by (simp only: sorted_wrt_append)
  show ?thesis
    unfolding top_ranked_def using len sub srt rest assms(1) by (simp add: distinct_take)
qed

lemma ranking_of_Counter:
  fixes toks :: "string list"
  defines "full \<equiv> map fst (sort_key (\<lambda>item. - int (snd item)) (Counter toks))"
  shows "distinct full" and "set full = set toks" and "sorted_wrt (ranks_before toks) full"
proof -
  let ?f = "\<lambda>item :: string \<times> nat. - int (snd item)"
  let ?R = "\<lambda>a b :: string \<times> nat. first_index toks (fst a) < first_index toks (fst b)"
  let ?s = "sort_key ?f (Counter toks)"
  have "mset (map fst ?s) = mset (map fst (Counter toks))"
    by simp
  then show "distinct full"
    unfolding full_def using distinct_keys_Counter [of toks] by (metis mset_eq_imp_distinct_iff)
  show "set full = set toks"
    unfolding full_def using set_keys_Counter [of toks] by simp
  have "sorted_wrt ?R (Counter toks)"
    using keys_Counter_order [of toks] by (simp add: sorted_wrt_map)
  then have "sorted_wrt (\<lambda>a b. ?f a < ?f b \<or> (?f a = ?f b \<and> ?R a b)) ?s"
    by (rule sorted_wrt_sort_key_stable)
  then have "sorted_wrt (\<lambda>a b. ranks_before toks (fst a) (fst b)) ?s"
  proof (rule sorted_wrt_mono_rel [rotated])
    fix a b assume "a \<in> set ?s" "b \<in> set ?s" "?f a < ?f b \<or> (?f a = ?f b \<and> ?R a b)"
    moreover from \<open>a \<in> set ?s\<close> have "snd a = count_list toks (fst a)"
      using Counter_item [of "fst a" "snd a" toks] by simp
    moreover from \<open>b \<in> set ?s\<close> have "snd b = count_list toks (fst b)"
      using Counter_item [of "fst b" "snd b" toks] by simp
    ultimately show "ranks_before toks (fst a) (fst b)"
      by (auto simp: ranks_before_def)
  qed
  then show "sorted_wrt (ranks_before toks) full"
    unfolding full_def by (simp add: sorted_wrt_map)
qed

lemma most_common_top_ranked:
  "top_ranked n toks (map fst (most_common n (Counter toks)))"
  unfolding most_common_def take_map [symmetric]
  by (rule top_of_ranking) (rule ranking_of_Counter)+

lemma sorted_wrt_unique:
  assumes asym: "\<And>a b. R a b \<Longrightarrow> \<not> R b a"
  shows "sorted_wrt R xs \<Longrightarrow> sorted_wrt R ys \<Longrightarrow> set xs = set ys \<Longrightarrow> xs = ys"
proof (induction xs arbitrary: ys)
  case Nil
  then show ?case by simp
next
  case (Cons x xs)
  then obtain y ys' where ys: "ys = y # ys'" by (cases ys) auto
  have irr: "\<not> R a a" for a using asym by blast
  have xy: "x = y"
  proof (rule ccontr)
    assume ne: "x \<noteq> y"
    then have "x \<in> set ys'" using Cons.prems(3) ys by auto
    then have "R y x" using Cons.prems(2) ys by auto
    moreover have "y \<in> set xs" using Cons.prems(3) ys ne by auto
    then have "R x y" using Cons.prems(1) by auto
    ultimately show False using asym by blast
  qed
  have "x \<notin> set xs" using Cons.prems(1) irr by auto
  moreover have "y \<notin> set ys'" using Cons.prems(2) ys irr by auto
  ultimately have "set xs = set ys'" using Cons.prems(3) ys xy by auto
  then have "xs = ys'" using Cons.IH [of ys'] Cons.prems(1,2) ys by simp
  then show ?case using xy ys by simp
qed

lemma ranks_before_asym: "ranks_before toks a b \<Longrightarrow> \<not> ranks_before toks b a"
  by (auto simp: ranks_before_def)

lemma top_ranked_same_set:
  assumes "top_ranked n toks r" and "top_ranked n toks r'"
  shows "set r \<subseteq> set r'"
proof
  fix x assume x: "x \<in> set r"
  show "x \<in> set r'"
  proof (rule ccontr)
    assume nx: "x \<notin> set r'"
    have card: "card (set r) = card (set r')"
      using assms by (simp add: top_ranked_def distinct_card)
    have "\<not> set r' \<subseteq> set r"
    proof
      assume "set r' \<subseteq> set r"
      then have "set r' = set r" using card by (simp add: card_subset_eq)
      with x nx show False by simp
    qed
    then obtain y where y: "y \<in> set r'" "y \<notin> set r" by blast
    have "x \<in> set toks" "y \<in> set toks" using assms x y by (auto simp: top_ranked_def)
    then have "ranks_before toks y x" "ranks_before toks x y"
      using assms x y nx by (auto simp: top_ranked_def)
    then show False using ranks_before_asym by blast
  qed
qed

lemma top_ranked_unique:
  assumes "top_ranked n toks r" and "top_ranked n toks r'"
  shows "r = r'"
proof -
  have "set r = set r'"
    using top_ranked_same_set [OF assms] top_ranked_same_set [OF assms(2,1)] by blast
  moreover have "sorted_wrt (ranks_before toks) r" "sorted_wrt (ranks_before toks) r'"
    using assms by (simp_all add: top_ranked_def)
  ultimately show ?thesis
    using sorted_wrt_unique [of "ranks_before toks" r r'] ranks_before_asym by blast
qed

text \<open>
  C2. On every text, \<open>extract_key_topics\<close> and \<open>extract_common_phrases\<close> return (they
  never raise) at most 10 entries, pairwise distinct, and these are the top of the
  frequency ranking of the tokens found in the lower-cased text: more frequent first,
  equally frequent ones in the order of their first occurrence, and no token that was
  left out ranks before a returned one. The ranking leaves no choice: each result is
  the only list that is the top 10 of its tokens, so both are functions of the text
  alone and two calls on the same text return the same lists.
\<close>

theorem extract_top_ranked:
  "\<exists>topics phrases.
     extract_key_topics text_content = Inr topics \<and>
     extract_common_phrases text_content = Inr phrases \<and>
     length topics \<le> 10 \<and> length phrases \<le> 10 \<and>
     top_ranked 10 (findall_words (lower text_content)) topics \<and>
     top_ranked 10 (findall_phrases (lower text_content)) phrases \<and>
     (\<forall>r. top_ranked 10 (findall_words (lower text_content)) r \<longrightarrow> r = topics) \<and>
     (\<forall>r. top_ranked 10 (findall_phrases (lower text_content)) r \<longrightarrow> r = phrases)"
proof -
  let ?topics = "map fst (most_common 10 (Counter (findall_words (lower text_content))))"
  let ?phrases = "map fst (most_common 10 (Counter (findall_phrases (lower text_content))))"
  have "extract_key_topics text_content = Inr ?topics"
    by (simp add: extract_key_topics_def try_except_def)
  moreover have "extract_common_phrases text_content = Inr ?phrases"
    by (simp add: extract_common_phrases_def try_except_def)
  moreover have "length ?topics \<le> 10" and "length ?phrases \<le> 10"
    by (simp_all add: most_common_def)
  moreover have "top_ranked 10 (findall_words (lower text_content)) ?topics"
    by (rule most_common_top_ranked)
  moreover have "top_ranked 10 (findall_phrases (lower text_content)) ?phrases"
    by (rule most_common_top_ranked)
  moreover have "\<forall>r. top_ranked 10 (findall_words (lower text_content)) r \<longrightarrow> r = ?topics"
    using top_ranked_unique most_common_top_ranked by blast
  moreover have "\<forall>r. top_ranked 10 (findall_phrases (lower text_content)) r \<longrightarrow> r = ?phrases"
    using top_ranked_unique most_common_top_ranked by blast
  ultimately show ?thesis by blast
qed

lemma to_be_key_topics:
  "extract_key_topics ''To be or not to be; to be is to do'' =
     Inr [''to'', ''be'', ''or'', ''not'', ''is'', ''do'']"
  by code_simp

lemma to_be_common_phrases:
  "extract_common_phrases ''To be or not to be; to be is to do'' =
     Inr [''to be or not to be'', ''to be is to do'']"
  by code_simp

theorem extract_top_ranked_witness:
  "extract_key_topics ''To be or not to be; to be is to do'' =
     Inr [''to'', ''be'', ''or'', ''not'', ''is'', ''do'']
   \<and> extract_common_phrases ''To be or not to be; to be is to do'' =
     Inr [''to be or not to be'', ''to be is to do'']
   \<and> top_ranked 10 (findall_words (lower ''To be or not to be; to be is to do''))
     [''to'', ''be'', ''or'', ''not'', ''is'', ''do'']
   \<and> top_ranked 10 (findall_phrases (lower ''To be or not to be; to be is to do''))
     [''to be or not to be'', ''to be is to do'']"
  using extract_top_ranked [of "''To be or not to be; to be is to do''"]
  unfolding to_be_key_topics to_be_common_phrases
  by auto

section \<open>The content analyzer: proofs\<close>

lemma extract_key_topics_Inr:
  "extract_key_topics t = Inr (map fst (most_common 10 (Counter (findall_words (lower t)))))"
  by (simp add: extract_key_topics_def try_except_def)

lemma extract_common_phrases_Inr:
  "extract_common_phrases t = Inr (map fst (most_common 10 (Counter (findall_phrases (lower t)))))"
  by (simp add: extract_common_phrases_def try_except_def)

lemma analyze_content_structure_Inr:
  "analyze_content_structure t =
     Inr (Structure (length (split ''\<newline>\<newline>'' t))
           (if split ''\<newline>\<newline>'' t \<noteq> []
            then (sum_list (map (\<lambda>p. length (split_ws p)) (split ''\<newline>\<newline>'' t)),
                  length (split ''\<newline>\<newline>'' t))
            else (0, 1)))"
  by (simp add: analyze_content_structure_def try_except_def Let_def)

lemma identify_content_elements_Inr:
  "\<exists>e. identify_content_elements bs c = Inr e"
  by (simp add: identify_content_elements_def try_except_def bind_exn_def split: sum.split)

lemma length_most_common: "length (most_common n c) \<le> n"
  by (simp add: most_common_def)

lemma well_formed_empty_analysis: "well_formed_analysis empty_analysis"
  by (simp add: well_formed_analysis_def)

lemma well_formed_full_analysis:
  "well_formed_analysis
     \<lparr> a_word_count = Some (PInt (int n)),
       a_common_phrases = Some (map fst (most_common 10 c)),
       a_content_structure = Some st,
       a_key_topics = Some (map PStr (map fst (most_common 10 d))),
       a_content_elements = Some el \<rparr>"
  by (simp add: well_formed_analysis_def length_most_common list_all_iff)

lemma analyze_content_well_formed:
  "\<exists>a. analyze_content bs content = Inr a \<and> well_formed_analysis a"
proof -
  obtain el where el: "identify_content_elements bs content = Inr el"
    using identify_content_elements_Inr by blast
  show ?thesis
  proof (cases "bs_parse bs content")
    case (Inl e)
    then show ?thesis
      by (simp add: analyze_content_def try_except_def bind_exn_def well_formed_empty_analysis)
  next
    case parsed: (Inr soup)
    show ?thesis
    proof (cases "bs_get_text bs soup")
      case (Inl e)
      with parsed show ?thesis
        by (simp add: analyze_content_def try_except_def bind_exn_def well_formed_empty_analysis)
    next
      case (Inr probe)
      with parsed el show ?thesis
        using well_formed_full_analysis
        by (simp add: analyze_content_def try_except_def bind_exn_def
            extract_key_topics_Inr extract_common_phrases_Inr analyze_content_structure_Inr)
    qed
  qed
qed

text \<open>
  C1. Whatever the parser does with the content (it may raise at any of its calls),
  \<open>analyze_content\<close> returns normally, and what it returns is a well-formed analysis:
  the empty dictionary when parsing or text extraction failed, the full one otherwise.
  The empty string is one such content.
\<close>

theorem analyze_content_never_raises:
  "\<exists>a. analyze_content bs content = Inr a \<and> well_formed_analysis a"
  by (rule analyze_content_well_formed)

lemma analyze_content_plain_empty:
  "analyze_content plain_bs '''' =
     Inr \<lparr> a_word_count = Some (PInt 0), a_common_phrases = Some [],
           a_content_structure = Some (Structure 1 (0, 1)), a_key_topics = Some [],
           a_content_elements = Some (Elements 0 0 0 0 0) \<rparr>"
  by code_simp

lemma analyze_content_broken:
  "analyze_content broken_bs ''<p>Hello <b>world'' = Inr empty_analysis"
  by (simp add: analyze_content_def broken_bs_def try_except_def bind_exn_def)

theorem analyze_content_never_raises_witness:
  "analyze_content plain_bs '''' =
     Inr \<lparr> a_word_count = Some (PInt 0), a_common_phrases = Some [],
           a_content_structure = Some (Structure 1 (0, 1)), a_key_topics = Some [],
           a_content_elements = Some (Elements 0 0 0 0 0) \<rparr>
   \<and> well_formed_analysis
         \<lparr> a_word_count = Some (PInt 0), a_common_phrases = Some [],
           a_content_structure = Some (Structure 1 (0, 1)), a_key_topics = Some [],
           a_content_elements = Some (Elements 0 0 0 0 0) \<rparr>
   \<and> analyze_content broken_bs ''<p>Hello <b>world'' = Inr empty_analysis
   \<and> well_formed_analysis empty_analysis"
  using analyze_content_never_raises [of plain_bs "''''"]
    analyze_content_never_raises [of broken_bs "''<p>Hello <b>world''"]
  unfolding analyze_content_plain_empty analyze_content_broken
  by auto

section \<open>Search-result extraction: proofs\<close>

lemma organic_result_dict:
  "organic_result (PDict d) =
     Inr [(''title'', dict_get d ''title'' (PStr '''')),
          (''link'', dict_get d ''link'' (PStr '''')),
          (''date'', dict_get d ''date'' (PStr '''')),
          (''snippet'', dict_get d ''snippet'' (PStr '''')),
          (''position'', dict_get d ''position'' (PStr '''')),
          (''displayed_link'', dict_get d ''displayed_link'' (PStr ''''))]"
  by (simp add: organic_result_def py_get_def bind_exn_def)

lemma paa_question_dict:
  "paa_question (PDict d) =
     Inr [(''question'', dict_get d ''question'' (PStr '''')),
          (''snippet'', dict_get d ''snippet'' (PStr '''')),
          (''title'', dict_get d ''title'' (PStr ''''))]"
  by (simp add: paa_question_def py_get_def bind_exn_def)

lemma related_search_dict:
  "related_search (PDict d) = Inr [(''query'', dict_get d ''query'' (PStr ''''))]"
  by (simp add: related_search_def py_get_def bind_exn_def)

lemma is_dict_PDict: "is_dict v \<Longrightarrow> \<exists>d. v = PDict d"
  by (cases v) (simp_all add: is_dict_def)

lemma copied_organic_result:
  "is_dict v \<Longrightarrow> \<exists>out. organic_result v = Inr out \<and>
     copied_fields [''title'', ''link'', ''date'', ''snippet'', ''position'', ''displayed_link''] v out"
  by (auto dest!: is_dict_PDict simp: organic_result_dict copied_fields_def dict_get_def)

lemma copied_paa_question:
  "is_dict v \<Longrightarrow> \<exists>out. paa_question v = Inr out \<and>
     copied_fields [''question'', ''snippet'', ''title''] v out"
  by (auto dest!: is_dict_PDict simp: paa_question_dict copied_fields_def dict_get_def)

lemma copied_related_search:
  "is_dict v \<Longrightarrow> \<exists>out. related_search v = Inr out \<and> copied_fields [''query''] v out"
  by (auto dest!: is_dict_PDict simp: related_search_dict copied_fields_def dict_get_def)

lemma map_exn_copies:
  assumes "\<And>v. is_dict v \<Longrightarrow> \<exists>out. f v = Inr out \<and> copied_fields keys v out"
  shows "list_all is_dict xs \<Longrightarrow> \<exists>outs. map_exn f xs = Inr outs \<and> list_all2 (copied_fields keys) xs outs"
proof (induction xs)
  case Nil
  show ?case by simp
next
  case (Cons x xs)
  then obtain outs where outs: "map_exn f xs = Inr outs" "list_all2 (copied_fields keys) xs outs"
    by auto
  from Cons.prems obtain out where out: "f x = Inr out" "copied_fields keys x out"
    using assms [of x] by auto
  show ?case using outs out by (simp add: bind_exn_def)
qed

lemma py_iter_listed:
  "listed_dicts data key \<Longrightarrow>
     py_iter (dict_get data key (PList [])) = Inr (entries data key) \<and>
     list_all is_dict (entries data key)"
  by (auto simp: listed_dicts_def entries_def dict_get_def py_iter_def
      split: option.splits pyval.splits)


lemma extract_serp_data_typed:
  assumes o: "listed_dicts data ''organic_results''"
    and q: "listed_dicts data ''related_questions''"
    and s: "listed_dicts data ''related_searches''"
  shows "\<exists>r. extract_serp_data data = Inr r
         \<and> list_all2 (copied_fields [''title'', ''link'', ''date'', ''snippet'', ''position'', ''displayed_link''])
             (entries data ''organic_results'') (sa_organic_results r)
         \<and> list_all2 (copied_fields [''question'', ''snippet'', ''title''])
             (entries data ''related_questions'') (sa_paa_questions r)
         \<and> list_all2 (copied_fields [''query''])
             (entries data ''related_searches'') (sa_related_searches r)
         \<and> sa_search_parameters r =
             (case map_of data ''search_parameters'' of None \<Rightarrow> PDict [] | Some v \<Rightarrow> v)"
proof -
  obtain organic where organic: "extract_organic_results data = Inr organic"
      "list_all2 (copied_fields [''title'', ''link'', ''date'', ''snippet'', ''position'', ''displayed_link''])
         (entries data ''organic_results'') organic"
    using py_iter_listed [OF o] map_exn_copies [of organic_result, OF copied_organic_result]
    by (fastforce simp: extract_organic_results_def bind_exn_def)
  obtain paa where paa: "extract_paa_questions data = Inr paa"
      "list_all2 (copied_fields [''question'', ''snippet'', ''title''])
         (entries data ''related_questions'') paa"
    using py_iter_listed [OF q] map_exn_copies [of paa_question, OF copied_paa_question]
    by (fastforce simp: extract_paa_questions_def bind_exn_def)
  obtain related where related: "extract_related_searches data = Inr related"
      "list_all2 (copied_fields [''query'']) (entries data ''related_searches'') related"
    using py_iter_listed [OF s] map_exn_copies [of related_search, OF copied_related_search]
    by (fastforce simp: extract_related_searches_def bind_exn_def)
  show ?thesis
    using organic paa related
    by (simp add: extract_serp_data_def bind_exn_def dict_get_def)
qed









section \<open>The context assembler: proofs\<close>

lemma map_exn_cases:
  assumes "\<And>x. f x = (if P x then Inr (g x) else Inl e)"
  shows "map_exn f xs = (if list_all P xs then Inr (map g xs) else Inl e)"
proof (induction xs)
  case Nil
  show ?case by simp
next
  case (Cons x xs)
  then show ?case by (simp add: assms bind_exn_def)
qed

lemma copied_fields_getitem:
  "copied_fields keys v out \<Longrightarrow> k \<in> set keys \<Longrightarrow> dict_getitem out k = Inr (field v k)"
  by (cases v) (auto simp: copied_fields_def dict_getitem_def field_def list_all_iff)

lemma top_article_lines:
  assumes "list_all2 (copied_fields [''title'', ''link'', ''date'', ''snippet'', ''position'', ''displayed_link'']) xs outs"
  shows "map_exn (\<lambda>result.
             bind_exn (dict_getitem result ''title'') (\<lambda>title.
             bind_exn (dict_getitem result ''link'') (\<lambda>link.
             Inr (''- '' @ py_str title @ '' (URL: '' @ py_str link @ '')''))))
          outs = Inr (map article_line xs)"
  using assms
proof (induction xs outs rule: list_all2_induct)
  case Nil
  show ?case by simp
next
  case (Cons x xs out outs)
  have "dict_getitem out ''title'' = Inr (field x ''title'')"
    and "dict_getitem out ''link'' = Inr (field x ''link'')"
    using copied_fields_getitem [OF Cons.hyps(1)] by simp_all
  then show ?case using Cons.IH by (simp add: bind_exn_def article_line_def)
qed

lemma question_lines:
  assumes "list_all2 (copied_fields [''question'', ''snippet'', ''title'']) xs outs"
  shows "map_exn (\<lambda>q.
             bind_exn (dict_getitem q ''question'') (\<lambda>question.
             Inr (''- '' @ py_str question)))
          outs = Inr (map question_line xs)"
  using assms
proof (induction xs outs rule: list_all2_induct)
  case Nil
  show ?case by simp
next
  case (Cons x xs out outs)
  have "dict_getitem out ''question'' = Inr (field x ''question'')"
    using copied_fields_getitem [OF Cons.hyps(1)] by simp
  then show ?case using Cons.IH by (simp add: bind_exn_def question_line_def)
qed

lemma search_lines:
  assumes "list_all2 (copied_fields [''query'']) xs outs"
  shows "map_exn (\<lambda>search.
             bind_exn (dict_getitem search ''query'') (\<lambda>query.
             Inr (''- '' @ py_str query)))
          outs = Inr (map search_line xs)"
  using assms
proof (induction xs outs rule: list_all2_induct)
  case Nil
  show ?case by simp
next
  case (Cons x xs out outs)
  have "dict_getitem out ''query'' = Inr (field x ''query'')"
    using copied_fields_getitem [OF Cons.hyps(1)] by simp
  then show ?case using Cons.IH by (simp add: bind_exn_def search_line_def)
qed

lemma format_top_articles_copies:
  assumes "list_all2 (copied_fields [''title'', ''link'', ''date'', ''snippet'', ''position'', ''displayed_link'']) xs outs"
  shows "format_top_articles outs = Inr (join ''\<newline>'' (map article_line (take 5 xs)))"
  unfolding format_top_articles_def top_article_lines [OF list_all2_takeI [OF assms]]
  by (simp add: bind_exn_def try_except_def)

lemma format_paa_questions_copies:
  assumes "list_all2 (copied_fields [''question'', ''snippet'', ''title'']) xs outs"
  shows "format_paa_questions outs = Inr (join ''\<newline>'' (map question_line xs))"
  unfolding format_paa_questions_def question_lines [OF assms]
  by (simp add: bind_exn_def try_except_def)

lemma format_related_searches_copies:
  assumes "list_all2 (copied_fields [''query'']) xs outs"
  shows "format_related_searches outs = Inr (join ''\<newline>'' (map search_line xs))"
  unfolding format_related_searches_def search_lines [OF assms]
  by (simp add: bind_exn_def try_except_def)

lemma py_join_cases:
  "py_join sep xs = (if list_all is_str xs then Inr (join sep (map the_str xs)) else Inl TypeError)"
  by (simp add: py_join_def)

lemma profile_topics_key_get:
  "take 5 (key_get (a_key_topics (key_get (p_analysis p) empty_analysis)) []) = profile_topics p"
  by (simp add: profile_topics_def key_get_def empty_analysis_def split: option.split)

lemma word_count_key_get:
  "key_get (a_word_count (key_get (p_analysis p) empty_analysis)) (PInt 0) =
     (case p_analysis p of None \<Rightarrow> PInt 0
      | Some a \<Rightarrow> (case a_word_count a of None \<Rightarrow> PInt 0 | Some n \<Rightarrow> n))"
  by (simp add: key_get_def empty_analysis_def split: option.split)

lemma summaries_of_profiles:
  "map_exn (\<lambda>data.
          let analysis = key_get (p_analysis data) empty_analysis
          in bind_exn (py_join '', '' (take 5 (key_get (a_key_topics analysis) []))) (\<lambda>topics.
             Inr (''URL: '' @ py_str (key_get (p_url data) (PStr ''''))
                  @ ''\<newline>Word Count: '' @ py_str (key_get (a_word_count analysis) (PInt 0))
                  @ ''\<newline>Key Topics: '' @ topics))) ps
     = (if list_all topics_are_strings ps then Inr (map summary_block ps) else Inl TypeError)"
proof (rule map_exn_cases)
  fix p
  show "(let analysis = key_get (p_analysis p) empty_analysis
          in bind_exn (py_join '', '' (take 5 (key_get (a_key_topics analysis) []))) (\<lambda>topics.
             Inr (''URL: '' @ py_str (key_get (p_url p) (PStr ''''))
                  @ ''\<newline>Word Count: '' @ py_str (key_get (a_word_count analysis) (PInt 0))
                  @ ''\<newline>Key Topics: '' @ topics))) =
        (if topics_are_strings p then Inr (summary_block p) else Inl TypeError)"
    unfolding Let_def profile_topics_key_get word_count_key_get py_join_cases
    by (simp add: bind_exn_def summary_block_def key_get_def topics_are_strings_def)
qed

lemma format_citation_data_cases:
  "format_citation_data ps =
     (if list_all topics_are_strings ps
      then Inr (join ''\<newline>\<newline>'' (map summary_block ps)) else Inl TypeError)"
  unfolding format_citation_data_def summaries_of_profiles
  by (simp add: bind_exn_def)

lemma format_competitor_content_cases:
  "format_competitor_content ps =
     (if list_all topics_are_strings ps
      then Inr (join ''\<newline>\<newline>'' (map summary_block ps)) else Inr [])"
  unfolding format_competitor_content_def summaries_of_profiles
  by (simp add: bind_exn_def try_except_def)

lemma format_competitor_content_try:
  "format_competitor_content ps = try_except (format_citation_data ps) (\<lambda>e. Inr [])"
  by (simp add: format_competitor_content_def format_citation_data_def)

lemma scenario_profiles_typed: "list_all topics_are_strings scenario_profiles"
  by (simp add: scenario_profiles_def topics_are_strings_def profile_topics_def empty_analysis_def)

lemma scenario_serp_typed: "typed_response scenario_serp"
  by (simp add: typed_response_def scenario_serp_def listed_dicts_def is_dict_def)

lemma query_of_typed:
  assumes "typed_response data"
  shows "py_get (dict_get data ''search_parameters'' (PDict [])) ''q'' (PStr '''') =
     Inr (field (case map_of data ''search_parameters'' of None \<Rightarrow> PDict [] | Some v \<Rightarrow> v) ''q'')"
proof (cases "map_of data ''search_parameters''")
  case None
  then show ?thesis by (simp add: dict_get_def py_get_def field_def)
next
  case (Some v)
  with assms obtain d where "v = PDict d"
    using is_dict_PDict [of v] by (auto simp: typed_response_def)
  with Some show ?thesis by (simp add: dict_get_def py_get_def field_def)
qed

text \<open>
  C6, as amended. When the provider's response is typed as its schema types it (each of the three
  lists absent or a list of dictionaries, \<open>search_parameters\<close> absent or a dictionary) and the
  first five key topics of every citation profile are strings, \<open>prepare_llm_context\<close> returns
  the sections in the fixed order: query, content parameters, top ranking articles, questions,
  related searches, competitor analysis, research thinking, citations. The top-articles section
  is one line (title and link) for each of the first five organic results, the question and
  related-search sections one line per entry, the citation section one block per profile, and the
  competitor section one block per profile when the first five key topics of every competitor
  profile are strings, and empty otherwise. When a key topic among the first five of a citation
  profile is not a string, the call raises \<open>TypeError\<close>.
\<close>


theorem prepare_llm_context_sections:
  assumes "typed_response serp_data"
  shows "prepare_llm_context self scraped_data serp_data deep_thinking citation_data =
     (if list_all topics_are_strings citation_data
      then Inr (''\<newline>Search Query: ''
          @ py_str (field (case map_of serp_data ''search_parameters'' of
                             None \<Rightarrow> PDict [] | Some v \<Rightarrow> v) ''q'')
          @ ''\<newline>\<newline>Content Parameters:\<newline>Article Intent: '' @ article_intent self
          @ ''\<newline>Secondary Keywords: '' @ join '', '' (secondary_keywords self)
          @ ''\<newline>\<newline>--- Top Ranking Articles ---\<newline>''
          @ join ''\<newline>'' (map article_line (take 5 (entries serp_data ''organic_results'')))
          @ ''\<newline>\<newline>--- People Also Ask Questions ---\<newline>''
          @ join ''\<newline>'' (map question_line (entries serp_data ''related_questions''))
          @ ''\<newline>\<newline>--- Related Searches ---\<newline>''
          @ join ''\<newline>'' (map search_line (entries serp_data ''related_searches''))
          @ ''\<newline>\<newline>--- Competitor Content Analysis ---\<newline>''
          @ (if list_all topics_are_strings scraped_data
             then join ''\<newline>\<newline>'' (map summary_block scraped_data) else [])
          @ ''\<newline>\<newline>--- Deep Research Thinking Process ---\<newline>'' @ deep_thinking
          @ ''\<newline>\<newline>--- Citation Content from Deep Research ---\<newline>''
          @ join ''\<newline>\<newline>'' (map summary_block citation_data) @ ''\<newline>'')
      else Inl TypeError)"
proof -
  from assms have typed: "listed_dicts serp_data ''organic_results''"
      "listed_dicts serp_data ''related_questions''" "listed_dicts serp_data ''related_searches''"
    by (simp_all add: typed_response_def)
  obtain r where r: "extract_serp_data serp_data = Inr r"
      "list_all2 (copied_fields [''title'', ''link'', ''date'', ''snippet'', ''position'', ''displayed_link''])
         (entries serp_data ''organic_results'') (sa_organic_results r)"
      "list_all2 (copied_fields [''question'', ''snippet'', ''title''])
         (entries serp_data ''related_questions'') (sa_paa_questions r)"
      "list_all2 (copied_fields [''query''])
         (entries serp_data ''related_searches'') (sa_related_searches r)"
    using extract_serp_data_typed [OF typed] by blast
  show ?thesis
    unfolding prepare_llm_context_def r(1) query_of_typed [OF assms]
      format_citation_data_cases format_competitor_content_cases
    by (simp add: bind_exn_def format_top_articles_copies [OF r(2)]
        format_paa_questions_copies [OF r(3)] format_related_searches_copies [OF r(4)])
qed

theorem prepare_llm_context_sections_witness:
  "typed_response scenario_serp
   \<and> prepare_llm_context scenario_analyzer scenario_profiles scenario_serp ''Thinking...'' [] =
     Inr ''\<newline>Search Query: concrete mixing ratios\<newline>\<newline>Content Parameters:\<newline>Article Intent: informational\<newline>Secondary Keywords: cement, mortar\<newline>\<newline>--- Top Ranking Articles ---\<newline>- Mix basics (URL: https://a.example/mix)\<newline>- Ratios explained (URL: https://b.example/ratios)\<newline>- Concrete guide (URL: https://c.example/guide)\<newline>\<newline>--- People Also Ask Questions ---\<newline>- What is the 1:2:3 mix?\<newline>- How much water per bag?\<newline>\<newline>--- Related Searches ---\<newline>- concrete mix calculator\<newline>\<newline>--- Competitor Content Analysis ---\<newline>URL: https://a.example/mix\<newline>Word Count: 500\<newline>Key Topics: concrete, mix, water, sand, cement\<newline>\<newline>URL: https://b.example/ratios\<newline>Word Count: 800\<newline>Key Topics: \<newline>\<newline>--- Deep Research Thinking Process ---\<newline>Thinking...\<newline>\<newline>--- Citation Content from Deep Research ---\<newline>\<newline>''"
proof -
  note ctx = prepare_llm_context_sections [OF scenario_serp_typed,
      of scenario_analyzer scenario_profiles "''Thinking...''" "[]"]
  have "prepare_llm_context scenario_analyzer scenario_profiles scenario_serp ''Thinking...'' [] =
     Inr ''\<newline>Search Query: concrete mixing ratios\<newline>\<newline>Content Parameters:\<newline>Article Intent: informational\<newline>Secondary Keywords: cement, mortar\<newline>\<newline>--- Top Ranking Articles ---\<newline>- Mix basics (URL: https://a.example/mix)\<newline>- Ratios explained (URL: https://b.example/ratios)\<newline>- Concrete guide (URL: https://c.example/guide)\<newline>\<newline>--- People Also Ask Questions ---\<newline>- What is the 1:2:3 mix?\<newline>- How much water per bag?\<newline>\<newline>--- Related Searches ---\<newline>- concrete mix calculator\<newline>\<newline>--- Competitor Content Analysis ---\<newline>URL: https://a.example/mix\<newline>Word Count: 500\<newline>Key Topics: concrete, mix, water, sand, cement\<newline>\<newline>URL: https://b.example/ratios\<newline>Word Count: 800\<newline>Key Topics: \<newline>\<newline>--- Deep Research Thinking Process ---\<newline>Thinking...\<newline>\<newline>--- Citation Content from Deep Research ---\<newline>\<newline>''"
    unfolding ctx by code_simp
  with scenario_serp_typed show ?thesis by (rule conjI)
qed

text \<open>
  C6 as stated fails. With the scenario's search results and one competitor profile whose key
  topic is the number 1, the competitor section holds no block: the join of the topics raises
  and \<open>format_competitor_content\<close> returns the empty string. With the same profile as a citation
  profile, or with a response whose \<open>organic_results\<close> is \<open>null\<close>, no section is emitted: the call
  raises.
\<close>

theorem prepare_llm_context_drops_untyped:
  "prepare_llm_context scenario_analyzer [untyped_profile] scenario_serp ''Thinking...'' [] =
     Inr ''\<newline>Search Query: concrete mixing ratios\<newline>\<newline>Content Parameters:\<newline>Article Intent: informational\<newline>Secondary Keywords: cement, mortar\<newline>\<newline>--- Top Ranking Articles ---\<newline>- Mix basics (URL: https://a.example/mix)\<newline>- Ratios explained (URL: https://b.example/ratios)\<newline>- Concrete guide (URL: https://c.example/guide)\<newline>\<newline>--- People Also Ask Questions ---\<newline>- What is the 1:2:3 mix?\<newline>- How much water per bag?\<newline>\<newline>--- Related Searches ---\<newline>- concrete mix calculator\<newline>\<newline>--- Competitor Content Analysis ---\<newline>\<newline>\<newline>--- Deep Research Thinking Process ---\<newline>Thinking...\<newline>\<newline>--- Citation Content from Deep Research ---\<newline>\<newline>''
   \<and> prepare_llm_context scenario_analyzer [] scenario_serp ''Thinking...'' [untyped_profile] =
     Inl TypeError
   \<and> prepare_llm_context scenario_analyzer scenario_profiles null_serp ''Thinking...'' [] =
     Inl TypeError"
  by code_simp

text \<open>
  C5. The context depends on the analyzer only through the intent and the secondary
  keywords: two calls that agree on them and on the four arguments return the same
  text (or raise the same exception), whatever the rest of the analyzer's state. The
  function reads no clock, unlike \<open>generate_research_report\<close>, which takes \<open>now\<close>.
\<close>

theorem prepare_llm_context_deterministic:
  "article_intent self1 = article_intent self2 \<Longrightarrow>
   secondary_keywords self1 = secondary_keywords self2 \<Longrightarrow>
   prepare_llm_context self1 scraped_data serp_data deep_thinking citation_data =
   prepare_llm_context self2 scraped_data serp_data deep_thinking citation_data"
  by (simp add: prepare_llm_context_def)

theorem prepare_llm_context_deterministic_witness:
  "prepare_llm_context
     (set_content_parameters (init_analyzer ''fc-key'' ''oa-key'') ''informational'' [''cement''])
     scenario_profiles scenario_serp ''Thinking...'' scenario_profiles =
   prepare_llm_context
     (set_content_parameters (init_analyzer ''another'' ''pair'') ''informational'' [''cement''])
     scenario_profiles scenario_serp ''Thinking...'' scenario_profiles"
  by (rule prepare_llm_context_deterministic)
    (simp_all add: set_content_parameters_def init_analyzer_def)

text \<open>
  C9, as amended. For every list of profiles: when the first five key topics of every profile are
  strings (as in every profile the scrapers build), \<open>format_citation_data\<close> and
  \<open>format_competitor_content\<close> return the same string, the summary blocks (URL, word count, first
  five key topics joined by commas) separated by blank lines; when a key topic among them is not a
  string, \<open>format_citation_data\<close> raises \<open>TypeError\<close> and \<open>format_competitor_content\<close> returns the
  empty string. In every case \<open>format_competitor_content\<close> is \<open>format_citation_data\<close> inside a
  handler that turns an exception into the empty string.
\<close>

theorem format_citation_data_same:
  "format_citation_data profiles =
     (if list_all topics_are_strings profiles
      then Inr (join ''\<newline>\<newline>'' (map summary_block profiles)) else Inl TypeError)
   \<and> format_competitor_content profiles =
     (if list_all topics_are_strings profiles
      then Inr (join ''\<newline>\<newline>'' (map summary_block profiles)) else Inr [])
   \<and> format_competitor_content profiles = try_except (format_citation_data profiles) (\<lambda>e. Inr [])"
  using format_citation_data_cases [of profiles] format_competitor_content_cases [of profiles]
    format_competitor_content_try [of profiles]
  by blast

lemma scenario_summaries:
  "join ''\<newline>\<newline>'' (map summary_block scenario_profiles) =
     ''URL: https://a.example/mix\<newline>Word Count: 500\<newline>Key Topics: concrete, mix, water, sand, cement\<newline>\<newline>URL: https://b.example/ratios\<newline>Word Count: 800\<newline>Key Topics: ''"
  by code_simp

theorem format_citation_data_same_witness:
  "list_all topics_are_strings scenario_profiles
   \<and> format_citation_data scenario_profiles = format_competitor_content scenario_profiles
   \<and> format_competitor_content scenario_profiles =
     Inr ''URL: https://a.example/mix\<newline>Word Count: 500\<newline>Key Topics: concrete, mix, water, sand, cement\<newline>\<newline>URL: https://b.example/ratios\<newline>Word Count: 800\<newline>Key Topics: ''
   \<and> \<not> list_all topics_are_strings [untyped_profile]
   \<and> format_citation_data [untyped_profile] = Inl TypeError"
proof -
  have u: "\<not> list_all topics_are_strings [untyped_profile]"
    by (simp add: untyped_profile_def topics_are_strings_def profile_topics_def empty_analysis_def)
  show ?thesis
    using format_citation_data_same [of scenario_profiles] scenario_profiles_typed
      format_citation_data_same [of "[untyped_profile]"] u
    unfolding scenario_summaries
    by simp
qed

text \<open>
  C9 as stated fails: on a profile whose key topic is the number 1 the join of the topics raises,
  \<open>format_citation_data\<close> lets the exception out and \<open>format_competitor_content\<close> returns the
  empty string.
\<close>

theorem format_citation_data_untyped:
  "format_citation_data [untyped_profile] = Inl TypeError
   \<and> format_competitor_content [untyped_profile] = Inr []
   \<and> format_citation_data [untyped_profile] \<noteq> format_competitor_content [untyped_profile]"
  by (simp add: untyped_profile_def format_citation_data_def format_competitor_content_def
      try_except_def bind_exn_def py_join_def key_get_def empty_analysis_def)

section \<open>Fetching: proofs\<close>

lemma scraped_profile_Inl: "scraped_profile bs url (Inl e) = Inl e"
  by (simp add: scraped_profile_def bind_exn_def)

lemma scraped_profile_Inr:
  "\<exists>a. analyze_content bs (page_content result) = Inr a \<and> well_formed_analysis a \<and>
     scraped_profile bs url (Inr result) = Inr (page_profile url result a)"
  using analyze_content_well_formed [of bs "page_content result"]
  by (auto simp: scraped_profile_def bind_exn_def Let_def page_profile_def page_content_def)

lemma profile_of_page:
  "analyze_content bs (page_content result) = Inr a \<Longrightarrow> well_formed_analysis a \<Longrightarrow>
     profile_of bs url (page_profile url result a)"
  by (simp add: profile_of_def page_profile_def)

lemma competitor_attempts_acc:
  "competitor_attempts sv bs url m n acc w =
     (acc @ fst (competitor_attempts sv bs url m n [] w),
      snd (competitor_attempts sv bs url m n [] w))"
proof (induction n arbitrary: w)
  case 0
  show ?case by simp
next
  case (Suc n)
  show ?case
    by (simp add: Let_def Suc.IH [symmetric] split: prod.split sum.split)
qed

lemma competitor_urls_acc:
  "competitor_urls sv bs urls acc w =
     (acc @ fst (competitor_urls sv bs urls [] w), snd (competitor_urls sv bs urls [] w))"
proof (induction urls arbitrary: acc w)
  case Nil
  show ?case by simp
next
  case (Cons u urls)
  obtain ps w' where one: "competitor_attempts sv bs u 3 3 [] w = (ps, w')"
    by (cases "competitor_attempts sv bs u 3 3 [] w")
  have acc: "competitor_attempts sv bs u 3 3 acc w = (acc @ ps, w')"
    using competitor_attempts_acc [of sv bs u 3 3 acc w] one by simp
  show ?case
    using Cons.IH [of "acc @ ps" w'] Cons.IH [of ps w']
    by (simp add: one acc)
qed

lemma scrape_competitor_content_Cons:
  "scrape_competitor_content sv bs (u # rest) w =
     (fst (competitor_attempts sv bs u 3 3 [] w)
        @ fst (scrape_competitor_content sv bs rest (snd (competitor_attempts sv bs u 3 3 [] w))),
      snd (scrape_competitor_content sv bs rest (snd (competitor_attempts sv bs u 3 3 [] w))))"
proof -
  obtain ps w' where one: "competitor_attempts sv bs u 3 3 [] w = (ps, w')"
    by (cases "competitor_attempts sv bs u 3 3 [] w")
  show ?thesis
    using competitor_urls_acc [of sv bs rest ps w']
    by (simp add: scrape_competitor_content_def one)
qed

lemma scrape_competitor_content_Nil: "scrape_competitor_content sv bs [] w = ([], w)"
  by (simp add: scrape_competitor_content_def)

lemma citation_attempts_eq:
  "citation_attempts sv bs url m n acc w = competitor_attempts sv bs url m n acc w"
  by (induction n arbitrary: w) (simp_all add: Let_def split: prod.split sum.split)

lemma citation_urls_eq: "citation_urls sv bs urls acc w = competitor_urls sv bs urls acc w"
  by (induction urls arbitrary: acc w) (simp_all add: citation_attempts_eq split: prod.split)

lemma scrape_citations_eq: "scrape_citations sv bs urls w = scrape_competitor_content sv bs urls w"
  by (simp add: scrape_citations_def scrape_competitor_content_def citation_urls_eq)

lemma competitor_attempts_one:
  "fst (competitor_attempts sv bs url m n [] w) = [] \<or>
   (\<exists>p. fst (competitor_attempts sv bs url m n [] w) = [p] \<and> profile_of bs url p)"
proof (induction n arbitrary: w)
  case 0
  show ?case by simp
next
  case (Suc n)
  obtain outcome w1 where call: "scrape_url sv url w = (outcome, w1)"
    by (cases "scrape_url sv url w")
  show ?case
  proof (cases outcome)
    case (Inl e)
    then show ?thesis
      using Suc.IH [of w1] Suc.IH [of "sleep sv 5 w1"]
      by (simp add: call scraped_profile_Inl Let_def)
  next
    case (Inr result)
    then show ?thesis
      using scraped_profile_Inr [of bs result url] profile_of_page [of bs result _ url]
      by (auto simp: call Let_def)
  qed
qed

lemma search_retry:
  assumes "SERPAPI_KEY \<noteq> []"
    and "requests_get sv query w0 = (o1, w1)" and "fetch_failed o1"
    and "requests_get sv query (after_failure sv o1 w1) = (o2, w2)" and "fetch_failed o2"
    and "requests_get sv query (after_failure sv o2 w2) = (o3, w3)"
  shows "o3 = Inr resp \<Longrightarrow> status_code resp = 200 \<Longrightarrow> json resp = Inr j \<Longrightarrow>
           get_search_results sv SERPAPI_KEY query w0 = (Inr j, w3)"
    and "fetch_failed o3 \<Longrightarrow> get_search_results sv SERPAPI_KEY query w0 = (Inr empty_serp, w3)"
proof -
  have step: "search_attempts sv query 3 (Suc n) w =
      (if n = 0 then (Inr empty_serp, w') else search_attempts sv query 3 n (after_failure sv out w'))"
    if "requests_get sv query w = (out, w')" and "fetch_failed out" and "n \<le> 2" for n w out w'
    using that
    by (cases out) (auto simp: fetch_failed_def after_failure_def bind_exn_def Let_def)
  have a1: "search_attempts sv query 3 (Suc (Suc (Suc 0))) w0 =
      search_attempts sv query 3 (Suc (Suc 0)) (after_failure sv o1 w1)"
    using step [OF assms(2,3), of "Suc (Suc 0)"] by (simp del: search_attempts.simps)
  have a2: "search_attempts sv query 3 (Suc (Suc 0)) (after_failure sv o1 w1) =
      search_attempts sv query 3 (Suc 0) (after_failure sv o2 w2)"
    using step [OF assms(4,5), of "Suc 0"] by (simp del: search_attempts.simps)
  have two: "get_search_results sv SERPAPI_KEY query w0 =
      search_attempts sv query 3 (Suc 0) (after_failure sv o2 w2)"
    using assms(1) a1 a2
    by (simp add: get_search_results_def numeral_3_eq_3 del: search_attempts.simps)
  have le: "(0::nat) \<le> 2" by simp
  show "get_search_results sv SERPAPI_KEY query w0 = (Inr j, w3)"
    if "o3 = Inr resp" "status_code resp = 200" "json resp = Inr j"
    using that assms(6) by (simp add: two bind_exn_def)
  show "get_search_results sv SERPAPI_KEY query w0 = (Inr empty_serp, w3)" if "fetch_failed o3"
    using step [OF assms(6) that le] by (simp add: two del: search_attempts.simps)
qed

text \<open>One URL: the attempt that succeeds appends the profile of its result, three failures append nothing.\<close>

lemma competitor_attempts_first:
  assumes "scrape_url sv url w0 = (Inr result, v1)"
    and "analyze_content bs (page_content result) = Inr a"
  shows "competitor_attempts sv bs url 3 3 [] w0 = ([page_profile url result a], v1)"
  using assms scraped_profile_Inr [of bs result url]
  by (auto simp: numeral_3_eq_3 Let_def)

lemma competitor_attempts_second:
  assumes "scrape_url sv url w0 = (Inl e1, v1)"
    and "scrape_url sv url (sleep sv 5 v1) = (Inr result, v2)"
    and "analyze_content bs (page_content result) = Inr a"
  shows "competitor_attempts sv bs url 3 3 [] w0 = ([page_profile url result a], v2)"
  using assms scraped_profile_Inr [of bs result url]
  by (auto simp: numeral_3_eq_3 Let_def scraped_profile_Inl)

lemma competitor_attempts_third:
  assumes "scrape_url sv url w0 = (Inl e1, v1)"
    and "scrape_url sv url (sleep sv 5 v1) = (Inl e2, v2)"
    and "scrape_url sv url (sleep sv 5 v2) = (Inr result, v3)"
    and "analyze_content bs (page_content result) = Inr a"
  shows "competitor_attempts sv bs url 3 3 [] w0 = ([page_profile url result a], v3)"
  using assms scraped_profile_Inr [of bs result url]
  by (auto simp: numeral_3_eq_3 Let_def scraped_profile_Inl)

lemma competitor_attempts_none:
  assumes "scrape_url sv url w0 = (Inl e1, v1)"
    and "scrape_url sv url (sleep sv 5 v1) = (Inl e2, v2)"
    and "scrape_url sv url (sleep sv 5 v2) = (Inl e3, v3)"
  shows "competitor_attempts sv bs url 3 3 [] w0 = ([], v3)"
  using assms by (simp add: numeral_3_eq_3 Let_def scraped_profile_Inl)

lemma scrape_appends:
  assumes "competitor_attempts sv bs url 3 3 [] w0 = ([p], v)"
  shows "scrape_competitor_content sv bs (url # rest) w0 =
     (p # fst (scrape_competitor_content sv bs rest v),
      snd (scrape_competitor_content sv bs rest v))"
  unfolding scrape_competitor_content_Cons [of sv bs url rest w0] assms by simp

lemma scrape_skips:
  assumes "competitor_attempts sv bs url 3 3 [] w0 = ([], v)"
  shows "scrape_competitor_content sv bs (url # rest) w0 = scrape_competitor_content sv bs rest v"
  unfolding scrape_competitor_content_Cons [of sv bs url rest w0] assms by simp

lemma scrape_first:
  assumes "scrape_url sv url w0 = (Inr result, v1)"
  shows "\<exists>a. analyze_content bs (page_content result) = Inr a \<and> well_formed_analysis a \<and>
      scrape_competitor_content sv bs (url # rest) w0 =
        (page_profile url result a # fst (scrape_competitor_content sv bs rest v1),
         snd (scrape_competitor_content sv bs rest v1))"
proof -
  obtain a where a: "analyze_content bs (page_content result) = Inr a" "well_formed_analysis a"
    using analyze_content_well_formed [of bs "page_content result"] by blast
  show ?thesis
    using a scrape_appends [OF competitor_attempts_first [OF assms a(1)], of rest] by blast
qed

lemma scrape_second:
  assumes "scrape_url sv url w0 = (Inl e1, v1)"
    and "scrape_url sv url (sleep sv 5 v1) = (Inr result, v2)"
  shows "\<exists>a. analyze_content bs (page_content result) = Inr a \<and> well_formed_analysis a \<and>
      scrape_competitor_content sv bs (url # rest) w0 =
        (page_profile url result a # fst (scrape_competitor_content sv bs rest v2),
         snd (scrape_competitor_content sv bs rest v2))"
proof -
  obtain a where a: "analyze_content bs (page_content result) = Inr a" "well_formed_analysis a"
    using analyze_content_well_formed [of bs "page_content result"] by blast
  show ?thesis
    using a scrape_appends [OF competitor_attempts_second [OF assms a(1)], of rest] by blast
qed

lemma scrape_third:
  assumes "scrape_url sv url w0 = (Inl e1, v1)"
    and "scrape_url sv url (sleep sv 5 v1) = (Inl e2, v2)"
    and "scrape_url sv url (sleep sv 5 v2) = (Inr result, v3)"
  shows "\<exists>a. analyze_content bs (page_content result) = Inr a \<and> well_formed_analysis a \<and>
      scrape_competitor_content sv bs (url # rest) w0 =
        (page_profile url result a # fst (scrape_competitor_content sv bs rest v3),
         snd (scrape_competitor_content sv bs rest v3))"
proof -
  obtain a where a: "analyze_content bs (page_content result) = Inr a" "well_formed_analysis a"
    using analyze_content_well_formed [of bs "page_content result"] by blast
  show ?thesis
    using a scrape_appends [OF competitor_attempts_third [OF assms a(1)], of rest] by blast
qed

lemma scrape_exhausted:
  assumes "scrape_url sv url w0 = (Inl e1, v1)"
    and "scrape_url sv url (sleep sv 5 v1) = (Inl e2, v2)"
    and "scrape_url sv url (sleep sv 5 v2) = (Inl e3, v3)"
  shows "scrape_competitor_content sv bs (url # rest) w0 = scrape_competitor_content sv bs rest v3"
  by (rule scrape_skips [OF competitor_attempts_none [OF assms]])

text \<open>
  C3. A fetch that fails on its first two attempts and succeeds on the third returns
  the successful result as a normal return: \<open>get_search_results\<close> returns the JSON of
  the third response, and the per-URL loop of \<open>scrape_competitor_content\<close> appends the
  profile of the third result (the URL, the content of the result, the analysis of that
  content) and goes on with the remaining URLs. A fetch that fails on all three
  attempts returns empty: \<open>get_search_results\<close> returns \<open>{}\<close>, the per-URL loop appends
  nothing for the URL, and the run goes on with the remaining URLs from the world the
  third attempt left.
\<close>

theorem fetch_retry_and_exhaustion:
  "(SERPAPI_KEY \<noteq> [] \<longrightarrow>
      requests_get sv query w0 = (o1, w1) \<longrightarrow> fetch_failed o1 \<longrightarrow>
      requests_get sv query (after_failure sv o1 w1) = (o2, w2) \<longrightarrow> fetch_failed o2 \<longrightarrow>
      requests_get sv query (after_failure sv o2 w2) = (o3, w3) \<longrightarrow>
        (\<forall>resp j. o3 = Inr resp \<longrightarrow> status_code resp = 200 \<longrightarrow> json resp = Inr j \<longrightarrow>
           get_search_results sv SERPAPI_KEY query w0 = (Inr j, w3))
        \<and> (fetch_failed o3 \<longrightarrow>
           get_search_results sv SERPAPI_KEY query w0 = (Inr empty_serp, w3)))
   \<and> (scrape_url sv url v0 = (Inl e1, v1) \<longrightarrow>
      scrape_url sv url (sleep sv 5 v1) = (Inl e2, v2) \<longrightarrow>
      scrape_url sv url (sleep sv 5 v2) = (s3, v3) \<longrightarrow>
        (\<forall>result. s3 = Inr result \<longrightarrow>
           (\<exists>a. analyze_content bs (page_content result) = Inr a \<and> well_formed_analysis a \<and>
              scrape_competitor_content sv bs (url # rest) v0 =
                (\<lparr> p_url = Some (PStr url), p_content = Some (page_content result),
                    p_analysis = Some a \<rparr>
                   # fst (scrape_competitor_content sv bs rest v3),
                 snd (scrape_competitor_content sv bs rest v3))))
        \<and> (\<forall>e3. s3 = Inl e3 \<longrightarrow>
           scrape_competitor_content sv bs (url # rest) v0 =
             scrape_competitor_content sv bs rest v3))"
  using search_retry [of SERPAPI_KEY sv query w0 o1 w1 o2 w2 o3 w3]
    scrape_third [of sv url v0 e1 v1 e2 v2 _ v3 bs rest]
    scrape_exhausted [of sv url v0 e1 v1 e2 v2 _ v3 bs rest]
  unfolding page_profile_def
  by blast

lemma analyze_content_ok:
  "analyze_content plain_bs ''<p>ok</p>'' =
     Inr \<lparr> a_word_count = Some (PInt 1), a_common_phrases = Some [],
           a_content_structure = Some (Structure 1 (1, 1)),
           a_key_topics = Some [PStr ''p'', PStr ''ok''],
           a_content_elements = Some (Elements 0 0 0 0 0) \<rparr>"
  by code_simp

lemma page_content_ok: "page_content \<lparr> html = Some ''<p>ok</p>'', markdown = None \<rparr> = ''<p>ok</p>''"
  by (simp add: page_content_def key_get_def)

lemma scrape_last_url:
  "scrape_competitor_content url_services plain_bs [''https://b.example''] 6 =
     ([\<lparr> p_url = Some (PStr ''https://b.example''), p_content = Some ''<p>ok</p>'',
         p_analysis = Some
           \<lparr> a_word_count = Some (PInt 1), a_common_phrases = Some [],
             a_content_structure = Some (Structure 1 (1, 1)),
             a_key_topics = Some [PStr ''p'', PStr ''ok''],
             a_content_elements = Some (Elements 0 0 0 0 0) \<rparr> \<rparr>], 7)"
  by code_simp

theorem fetch_retry_and_exhaustion_witness:
  "get_search_results url_services ''key'' ''concrete mixing ratios'' 0 = (Inr scenario_serp, 3)
   \<and> get_search_results url_services ''key'' ''down'' 0 = (Inr empty_serp, 3)
   \<and> scrape_competitor_content url_services plain_bs
         [''https://a.example'', ''https://down.example'', ''https://b.example''] 0 =
       ([\<lparr> p_url = Some (PStr ''https://a.example''), p_content = Some ''<p>ok</p>'',
           p_analysis = Some
             \<lparr> a_word_count = Some (PInt 1), a_common_phrases = Some [],
               a_content_structure = Some (Structure 1 (1, 1)),
               a_key_topics = Some [PStr ''p'', PStr ''ok''],
               a_content_elements = Some (Elements 0 0 0 0 0) \<rparr> \<rparr>,
         \<lparr> p_url = Some (PStr ''https://b.example''), p_content = Some ''<p>ok</p>'',
           p_analysis = Some
             \<lparr> a_word_count = Some (PInt 1), a_common_phrases = Some [],
               a_content_structure = Some (Structure 1 (1, 1)),
               a_key_topics = Some [PStr ''p'', PStr ''ok''],
               a_content_elements = Some (Elements 0 0 0 0 0) \<rparr> \<rparr>], 7)"
proof -
  note search_part = fetch_retry_and_exhaustion [THEN conjunct1, rule_format]
  note scrape_part = fetch_retry_and_exhaustion [THEN conjunct2, rule_format]
  have key: "''key'' \<noteq> []" by simp
  have failed: "fetch_failed (Inl RequestException)" by (simp add: fetch_failed_def)
  have slept: "after_failure url_services (Inl RequestException) w = w" for w
    by (simp add: after_failure_def url_services_def)
  have g1: "requests_get url_services q 0 = (Inl RequestException, 1)" for q
    by (simp add: url_services_def)
  have g2: "requests_get url_services q (after_failure url_services (Inl RequestException) 1) =
      (Inl RequestException, 2)" for q
    by (simp add: slept) (simp add: url_services_def)
  have g3: "requests_get url_services ''concrete mixing ratios''
        (after_failure url_services (Inl RequestException) 2) =
      (Inr \<lparr> status_code = 200, json = Inr scenario_serp \<rparr>, 3)"
    by (simp add: slept) (simp add: url_services_def)
  have d3: "requests_get url_services ''down''
        (after_failure url_services (Inl RequestException) 2) = (Inl RequestException, 3)"
    by (simp add: slept) (simp add: url_services_def)
  have search: "get_search_results url_services ''key'' ''concrete mixing ratios'' 0 =
      (Inr scenario_serp, 3)"
  proof (rule search_part [OF key g1 failed g2 failed g3, THEN conjunct1, rule_format])
    show "Inr \<lparr> status_code = 200, json = Inr scenario_serp \<rparr> =
        Inr \<lparr> status_code = 200, json = Inr scenario_serp \<rparr>" by (rule refl)
    show "status_code \<lparr> status_code = 200, json = Inr scenario_serp \<rparr> = 200" by simp
    show "json \<lparr> status_code = 200, json = Inr scenario_serp \<rparr> = Inr scenario_serp" by simp
  qed
  have down: "get_search_results url_services ''key'' ''down'' 0 = (Inr empty_serp, 3)"
    by (rule search_part [OF key g1 failed g2 failed d3, THEN conjunct2, rule_format])
      (rule failed)
  have s1: "scrape_url url_services ''https://a.example'' 0 = (Inl (Exception ''timed out''), 1)"
    by (simp add: url_services_def)
  have s2: "scrape_url url_services ''https://a.example'' (sleep url_services 5 1) =
      (Inl (Exception ''timed out''), 2)"
    by (simp add: url_services_def)
  have s3: "scrape_url url_services ''https://a.example'' (sleep url_services 5 2) =
      (Inr \<lparr> html = Some ''<p>ok</p>'', markdown = None \<rparr>, 3)"
    by (simp add: url_services_def)
  have t1: "scrape_url url_services ''https://down.example'' 3 = (Inl (Exception ''timed out''), 4)"
    by (simp add: url_services_def)
  have t2: "scrape_url url_services ''https://down.example'' (sleep url_services 5 4) =
      (Inl (Exception ''timed out''), 5)"
    by (simp add: url_services_def)
  have t3: "scrape_url url_services ''https://down.example'' (sleep url_services 5 5) =
      (Inl (Exception ''timed out''), 6)"
    by (simp add: url_services_def)
  obtain a where a: "analyze_content plain_bs ''<p>ok</p>'' = Inr a"
    "scrape_competitor_content url_services plain_bs
       [''https://a.example'', ''https://down.example'', ''https://b.example''] 0 =
     (\<lparr> p_url = Some (PStr ''https://a.example''), p_content = Some ''<p>ok</p>'',
         p_analysis = Some a \<rparr>
        # fst (scrape_competitor_content url_services plain_bs
            [''https://down.example'', ''https://b.example''] 3),
      snd (scrape_competitor_content url_services plain_bs
            [''https://down.example'', ''https://b.example''] 3))"
    using scrape_part [OF s1 s2 s3, THEN conjunct1, rule_format, OF refl,
        of plain_bs "[''https://down.example'', ''https://b.example'']"]
    unfolding page_content_ok
    by blast
  have skipped: "scrape_competitor_content url_services plain_bs
       [''https://down.example'', ''https://b.example''] 3 =
     scrape_competitor_content url_services plain_bs [''https://b.example''] 6"
    by (rule scrape_part [OF t1 t2 t3, THEN conjunct2, rule_format, OF refl])
  from a(1) have a_eq: "a = \<lparr> a_word_count = Some (PInt 1), a_common_phrases = Some [],
               a_content_structure = Some (Structure 1 (1, 1)),
               a_key_topics = Some [PStr ''p'', PStr ''ok''],
               a_content_elements = Some (Elements 0 0 0 0 0) \<rparr>"
    unfolding analyze_content_ok by simp
  show ?thesis
    using search down a(2) unfolding skipped scrape_last_url a_eq by simp
qed

lemma scrape_contributions:
  "\<exists>cs. fst (scrape_competitor_content sv bs urls w) = concat cs \<and>
         list_all2 (contribution bs) urls cs"
proof (induction urls arbitrary: w)
  case Nil
  show ?case by (simp add: scrape_competitor_content_Nil)
next
  case (Cons u urls)
  let ?one = "competitor_attempts sv bs u 3 3 [] w"
  obtain cs where cs: "fst (scrape_competitor_content sv bs urls (snd ?one)) = concat cs"
      "list_all2 (contribution bs) urls cs"
    using Cons.IH [of "snd ?one"] by blast
  have "contribution bs u (fst ?one)"
    using competitor_attempts_one [of sv bs u 3 3 w] by (simp add: contribution_def)
  then have "fst (scrape_competitor_content sv bs (u # urls) w) = concat (fst ?one # cs)
      \<and> list_all2 (contribution bs) (u # urls) (fst ?one # cs)"
    using cs by (simp add: scrape_competitor_content_Cons)
  then show ?case by blast
qed

lemma length_concat_contributions:
  "list_all2 (contribution bs) urls cs \<Longrightarrow> length (concat cs) \<le> length urls"
  by (induction urls cs rule: list_all2_induct) (auto simp: contribution_def)

text \<open>
  C4, as amended. \<open>scrape_competitor_content\<close> and \<open>scrape_citations\<close> return the same
  list: URL by URL, in input order, nothing or one profile of that URL, so at most
  one profile per URL. A URL whose scrape succeeds at its first, second or third attempt
  contributes the profile of that result (the URL, the content of the result, the well-formed
  analysis of that content), and the remaining URLs are scraped from the world that attempt
  left. A URL whose scrape fails on all three attempts is left out of the list, and the
  remaining URLs are scraped all the same.
\<close>

theorem scrape_profiles_per_url:
  "(\<exists>cs. fst (scrape_competitor_content sv bs urls w) = concat cs \<and>
          list_all2 (contribution bs) urls cs)
   \<and> length (fst (scrape_competitor_content sv bs urls w)) \<le> length urls
   \<and> scrape_citations sv bs urls w = scrape_competitor_content sv bs urls w
   \<and> (\<forall>result. scrape_url sv url w = (Inr result, w1) \<longrightarrow>
        (\<exists>a. analyze_content bs (page_content result) = Inr a \<and> well_formed_analysis a \<and>
           scrape_competitor_content sv bs (url # rest) w =
             (\<lparr> p_url = Some (PStr url), p_content = Some (page_content result),
                 p_analysis = Some a \<rparr>
                # fst (scrape_competitor_content sv bs rest w1),
              snd (scrape_competitor_content sv bs rest w1))))
   \<and> (\<forall>result. scrape_url sv url w = (Inl e1, w1) \<longrightarrow>
        scrape_url sv url (sleep sv 5 w1) = (Inr result, w2) \<longrightarrow>
        (\<exists>a. analyze_content bs (page_content result) = Inr a \<and> well_formed_analysis a \<and>
           scrape_competitor_content sv bs (url # rest) w =
             (\<lparr> p_url = Some (PStr url), p_content = Some (page_content result),
                 p_analysis = Some a \<rparr>
                # fst (scrape_competitor_content sv bs rest w2),
              snd (scrape_competitor_content sv bs rest w2))))
   \<and> (\<forall>result. scrape_url sv url w = (Inl e1, w1) \<longrightarrow>
        scrape_url sv url (sleep sv 5 w1) = (Inl e2, w2) \<longrightarrow>
        scrape_url sv url (sleep sv 5 w2) = (Inr result, w3) \<longrightarrow>
        (\<exists>a. analyze_content bs (page_content result) = Inr a \<and> well_formed_analysis a \<and>
           scrape_competitor_content sv bs (url # rest) w =
             (\<lparr> p_url = Some (PStr url), p_content = Some (page_content result),
                 p_analysis = Some a \<rparr>
                # fst (scrape_competitor_content sv bs rest w3),
              snd (scrape_competitor_content sv bs rest w3))))
   \<and> (scrape_url sv url w = (Inl e1, w1) \<longrightarrow>
        scrape_url sv url (sleep sv 5 w1) = (Inl e2, w2) \<longrightarrow>
        scrape_url sv url (sleep sv 5 w2) = (Inl e3, w3) \<longrightarrow>
          scrape_competitor_content sv bs (url # rest) w =
            scrape_competitor_content sv bs rest w3)"
proof -
  obtain cs where cs: "fst (scrape_competitor_content sv bs urls w) = concat cs"
      "list_all2 (contribution bs) urls cs"
    using scrape_contributions [of sv bs urls w] by blast
  have "length (fst (scrape_competitor_content sv bs urls w)) \<le> length urls"
    using length_concat_contributions [OF cs(2)] cs(1) by simp
  moreover have "\<exists>cs. fst (scrape_competitor_content sv bs urls w) = concat cs \<and>
          list_all2 (contribution bs) urls cs"
    using cs by blast
  moreover have "scrape_citations sv bs urls w = scrape_competitor_content sv bs urls w"
    by (rule scrape_citations_eq)
  moreover have "\<forall>result. scrape_url sv url w = (Inr result, w1) \<longrightarrow>
        (\<exists>a. analyze_content bs (page_content result) = Inr a \<and> well_formed_analysis a \<and>
           scrape_competitor_content sv bs (url # rest) w =
             (\<lparr> p_url = Some (PStr url), p_content = Some (page_content result),
                 p_analysis = Some a \<rparr>
                # fst (scrape_competitor_content sv bs rest w1),
              snd (scrape_competitor_content sv bs rest w1)))"
    using scrape_first [of sv url w _ w1 bs rest] unfolding page_profile_def by blast
  moreover have "\<forall>result. scrape_url sv url w = (Inl e1, w1) \<longrightarrow>
        scrape_url sv url (sleep sv 5 w1) = (Inr result, w2) \<longrightarrow>
        (\<exists>a. analyze_content bs (page_content result) = Inr a \<and> well_formed_analysis a \<and>
           scrape_competitor_content sv bs (url # rest) w =
             (\<lparr> p_url = Some (PStr url), p_content = Some (page_content result),
                 p_analysis = Some a \<rparr>
                # fst (scrape_competitor_content sv bs rest w2),
              snd (scrape_competitor_content sv bs rest w2)))"
    using scrape_second [of sv url w e1 w1 _ w2 bs rest] unfolding page_profile_def by blast
  moreover have "\<forall>result. scrape_url sv url w = (Inl e1, w1) \<longrightarrow>
        scrape_url sv url (sleep sv 5 w1) = (Inl e2, w2) \<longrightarrow>
        scrape_url sv url (sleep sv 5 w2) = (Inr result, w3) \<longrightarrow>
        (\<exists>a. analyze_content bs (page_content result) = Inr a \<and> well_formed_analysis a \<and>
           scrape_competitor_content sv bs (url # rest) w =
             (\<lparr> p_url = Some (PStr url), p_content = Some (page_content result),
                 p_analysis = Some a \<rparr>
                # fst (scrape_competitor_content sv bs rest w3),
              snd (scrape_competitor_content sv bs rest w3)))"
    using scrape_third [of sv url w e1 w1 e2 w2 _ w3 bs rest] unfolding page_profile_def by blast
  moreover have "scrape_url sv url w = (Inl e1, w1) \<longrightarrow>
        scrape_url sv url (sleep sv 5 w1) = (Inl e2, w2) \<longrightarrow>
        scrape_url sv url (sleep sv 5 w2) = (Inl e3, w3) \<longrightarrow>
          scrape_competitor_content sv bs (url # rest) w =
            scrape_competitor_content sv bs rest w3"
    using scrape_exhausted [of sv url w e1 w1 e2 w2 e3 w3 bs rest] by blast
  ultimately show ?thesis by (intro conjI)
qed

theorem scrape_profiles_per_url_witness:
  "length (fst (scrape_competitor_content url_services plain_bs
       [''https://down.example'', ''https://b.example''] 3)) \<le> 2
   \<and> scrape_citations url_services plain_bs [''https://down.example'', ''https://b.example''] 3 =
     scrape_competitor_content url_services plain_bs [''https://b.example''] 6
   \<and> scrape_citations url_services plain_bs [''https://b.example''] 6 =
       ([\<lparr> p_url = Some (PStr ''https://b.example''), p_content = Some ''<p>ok</p>'',
           p_analysis = Some
             \<lparr> a_word_count = Some (PInt 1), a_common_phrases = Some [],
               a_content_structure = Some (Structure 1 (1, 1)),
               a_key_topics = Some [PStr ''p'', PStr ''ok''],
               a_content_elements = Some (Elements 0 0 0 0 0) \<rparr> \<rparr>], 7)
   \<and> scrape_citations url_services plain_bs [''https://c.example''] 1 =
       ([\<lparr> p_url = Some (PStr ''https://c.example''), p_content = Some ''<p>ok</p>'',
           p_analysis = Some
             \<lparr> a_word_count = Some (PInt 1), a_common_phrases = Some [],
               a_content_structure = Some (Structure 1 (1, 1)),
               a_key_topics = Some [PStr ''p'', PStr ''ok''],
               a_content_elements = Some (Elements 0 0 0 0 0) \<rparr> \<rparr>], 3)"
proof -
  note all = scrape_profiles_per_url [of url_services plain_bs
      "[''https://down.example'', ''https://b.example'']" 3 "''https://down.example''" 4
      "[''https://b.example'']" "Exception ''timed out''" 5 "Exception ''timed out''" 6
      "Exception ''timed out''"]
  note last = scrape_profiles_per_url [of url_services plain_bs "[''https://b.example'']" 6
      "''https://b.example''" 7 "[]", THEN conjunct2, THEN conjunct2]
  note retried = scrape_profiles_per_url [of url_services plain_bs "[''https://c.example'']" 1
      "''https://c.example''" 2 "[]" "Exception ''timed out''" 3, THEN conjunct2, THEN conjunct2]
  have t1: "scrape_url url_services ''https://down.example'' 3 = (Inl (Exception ''timed out''), 4)"
    by (simp add: url_services_def)
  have t2: "scrape_url url_services ''https://down.example'' (sleep url_services 5 4) =
      (Inl (Exception ''timed out''), 5)"
    by (simp add: url_services_def)
  have t3: "scrape_url url_services ''https://down.example'' (sleep url_services 5 5) =
      (Inl (Exception ''timed out''), 6)"
    by (simp add: url_services_def)
  have b1: "scrape_url url_services ''https://b.example'' 6 =
      (Inr \<lparr> html = Some ''<p>ok</p>'', markdown = None \<rparr>, 7)"
    by (simp add: url_services_def)
  have c1: "scrape_url url_services ''https://c.example'' 1 = (Inl (Exception ''timed out''), 2)"
    by (simp add: url_services_def)
  have c2: "scrape_url url_services ''https://c.example'' (sleep url_services 5 2) =
      (Inr \<lparr> html = Some ''<p>ok</p>'', markdown = None \<rparr>, 3)"
    by (simp add: url_services_def)
  have len: "length (fst (scrape_competitor_content url_services plain_bs
       [''https://down.example'', ''https://b.example''] 3)) \<le> 2"
    using all [THEN conjunct2, THEN conjunct1] by simp
  have same: "scrape_citations url_services plain_bs [''https://down.example'', ''https://b.example''] 3 =
      scrape_competitor_content url_services plain_bs [''https://down.example'', ''https://b.example''] 3"
    by (rule all [THEN conjunct2, THEN conjunct2, THEN conjunct1])
  have skipped: "scrape_competitor_content url_services plain_bs
       [''https://down.example'', ''https://b.example''] 3 =
     scrape_competitor_content url_services plain_bs [''https://b.example''] 6"
    by (rule all [THEN conjunct2, THEN conjunct2, THEN conjunct2, THEN conjunct2,
          THEN conjunct2, THEN conjunct2, rule_format, OF t1 t2 t3])
  have nil: "scrape_competitor_content url_services plain_bs [] w = ([], w)" for w
    by (rule scrape_competitor_content_Nil)
  obtain a where a: "analyze_content plain_bs ''<p>ok</p>'' = Inr a"
    "scrape_competitor_content url_services plain_bs [''https://b.example''] 6 =
       ([\<lparr> p_url = Some (PStr ''https://b.example''), p_content = Some ''<p>ok</p>'',
           p_analysis = Some a \<rparr>], 7)"
    using last [THEN conjunct2, THEN conjunct1, rule_format, OF b1]
    unfolding page_content_ok nil
    by auto
  obtain a' where a': "analyze_content plain_bs ''<p>ok</p>'' = Inr a'"
    "scrape_competitor_content url_services plain_bs [''https://c.example''] 1 =
       ([\<lparr> p_url = Some (PStr ''https://c.example''), p_content = Some ''<p>ok</p>'',
           p_analysis = Some a' \<rparr>], 3)"
    using retried [THEN conjunct2, THEN conjunct2, THEN conjunct1, rule_format, OF c1 c2]
    unfolding page_content_ok nil
    by auto
  have b_same: "scrape_citations url_services plain_bs [''https://b.example''] 6 =
      scrape_competitor_content url_services plain_bs [''https://b.example''] 6"
    by (rule last [THEN conjunct1])
  have c_same: "scrape_citations url_services plain_bs [''https://c.example''] 1 =
      scrape_competitor_content url_services plain_bs [''https://c.example''] 1"
    by (rule retried [THEN conjunct1])
  from a(1) have a_eq: "a = \<lparr> a_word_count = Some (PInt 1), a_common_phrases = Some [],
               a_content_structure = Some (Structure 1 (1, 1)),
               a_key_topics = Some [PStr ''p'', PStr ''ok''],
               a_content_elements = Some (Elements 0 0 0 0 0) \<rparr>"
    unfolding analyze_content_ok by simp
  from a'(1) have a'_eq: "a' = \<lparr> a_word_count = Some (PInt 1), a_common_phrases = Some [],
               a_content_structure = Some (Structure 1 (1, 1)),
               a_key_topics = Some [PStr ''p'', PStr ''ok''],
               a_content_elements = Some (Elements 0 0 0 0 0) \<rparr>"
    unfolding analyze_content_ok by simp
  show ?thesis
    using len a(2) a'(2) unfolding same skipped b_same c_same a_eq a'_eq by simp
qed

text \<open>
  C4 as stated fails: one URL that is down goes in, and no profile comes out of either
  scraper.
\<close>

theorem scrape_omits_failed_url:
  "fst (scrape_competitor_content url_services plain_bs [''https://down.example''] 0) = []
   \<and> fst (scrape_citations url_services plain_bs [''https://down.example''] 0) = []"
  by (simp add: scrape_citations_eq scrape_competitor_content_def url_services_def
      numeral_3_eq_3 scraped_profile_Inl)

lemma well_formed_topics:
  assumes "well_formed_analysis a"
  shows "list_all is_str (case a_key_topics a of None \<Rightarrow> [] | Some ts \<Rightarrow> ts)"
proof (cases "a_key_topics a")
  case None
  then show ?thesis by simp
next
  case (Some ts)
  then have "a \<noteq> empty_analysis" by (auto simp: empty_analysis_def)
  with assms Some have "list_all is_str ts"
    by (auto simp: well_formed_analysis_def split: option.splits pyval.splits)
  with Some show ?thesis by simp
qed

lemma profile_of_typed:
  assumes "profile_of bs url p"
  shows "topics_are_strings p"
proof (cases "p_analysis p")
  case None
  then show ?thesis by (simp add: topics_are_strings_def profile_topics_def)
next
  case (Some a)
  with assms have "well_formed_analysis a" by (simp add: profile_of_def split: option.splits)
  then have "list_all is_str (case a_key_topics a of None \<Rightarrow> [] | Some ts \<Rightarrow> ts)"
    by (rule well_formed_topics)
  then have "list_all is_str (take 5 (case a_key_topics a of None \<Rightarrow> [] | Some ts \<Rightarrow> ts))"
    by (auto simp: list_all_iff dest: in_set_takeD)
  with Some show ?thesis by (simp add: topics_are_strings_def profile_topics_def)
qed

text \<open>
  The profiles the scrapers return are typed as the data model types them, so the two
  summary formatters agree on them.
\<close>

lemma scraped_profiles_typed:
  "list_all topics_are_strings (fst (scrape_competitor_content sv bs urls w))"
proof -
  obtain cs where cs: "fst (scrape_competitor_content sv bs urls w) = concat cs"
      "list_all2 (contribution bs) urls cs"
    using scrape_contributions [of sv bs urls w] by blast
  have "list_all topics_are_strings (concat cs)"
    using cs(2)
    by (induction urls cs rule: list_all2_induct) (auto simp: contribution_def profile_of_typed)
  then show ?thesis by (simp add: cs(1))
qed

lemma scraped_profiles_summaries:
  "format_citation_data (fst (scrape_citations sv bs urls w)) =
     format_competitor_content (fst (scrape_citations sv bs urls w))"
  using scraped_profiles_typed [of sv bs urls w]
  by (simp add: scrape_citations_eq format_citation_data_cases format_competitor_content_cases)

section \<open>The research excerpt: proofs\<close>

lemma contains_find_sub: "contains sub s = (find_sub sub s \<noteq> None)"
  by (induction s) auto

lemma contains_Cons: "contains sub cs \<Longrightarrow> contains sub (c # cs)"
  by simp

lemma contains_drop: "contains sub (drop n s) \<Longrightarrow> contains sub s"
proof (induction s arbitrary: n)
  case Nil
  then show ?case by simp
next
  case (Cons c cs)
  then show ?case by (cases n) auto
qed

lemma think_match_contains:
  "think_match s = Some k \<Longrightarrow> contains ''<think>'' s \<and> contains ''</think>'' s"
proof -
  assume m: "think_match s = Some k"
  then have p: "prefix ''<think>'' s" and f: "find_sub ''</think>'' (drop 7 s) \<noteq> None"
    by (auto simp: think_match_def split: if_splits option.splits)
  from p have "contains ''<think>'' s" by (cases s) auto
  moreover from f have "contains ''</think>'' s"
    using contains_drop [of "''</think>''" 7 s] by (simp add: contains_find_sub)
  ultimately show ?thesis by simp
qed

lemma sub_think_no_tags:
  "\<not> (contains ''<think>'' s \<and> contains ''</think>'' s) \<Longrightarrow> sub_think 0 s = s"
proof (induction s)
  case Nil
  show ?case by simp
next
  case (Cons c cs)
  have none: "think_match (c # cs) = None"
    using think_match_contains [of "c # cs"] Cons.prems by (cases "think_match (c # cs)") auto
  have "\<not> (contains ''<think>'' cs \<and> contains ''</think>'' cs)"
    using Cons.prems by auto
  then show ?case using Cons.IH none by simp
qed

lemma split_aux_hd:
  "sep \<noteq> [] \<Longrightarrow>
   split_aux sep 0 cur s \<noteq> [] \<and>
   hd (split_aux sep 0 cur s) = cur @ (case find_sub sep s of None \<Rightarrow> s | Some i \<Rightarrow> take i s)"
proof (induction s arbitrary: cur)
  case Nil
  then show ?case by simp
next
  case (Cons c cs)
  then show ?case by (auto split: option.split)
qed

lemma first_item_split:
  "sep \<noteq> [] \<Longrightarrow> first_item (split sep s) = Inr (cut_at sep s)"
  using split_aux_hd [of sep "[]" s]
  by (cases "split_aux sep 0 [] s") (auto simp: first_item_def split_def cut_at_def)

lemma dropWhile_rev_dropWhile:
  "dropWhile P (rev (dropWhile P (rev (dropWhile P s)))) = rev (dropWhile P (rev (dropWhile P s)))"
proof (cases "dropWhile P s")
  case Nil
  show ?thesis unfolding Nil by simp
next
  case (Cons y ys)
  then have ny: "\<not> P y" using hd_dropWhile [of P s] by (metis list.sel(1) list.distinct(1))
  have "rev (dropWhile P (rev (y # ys))) = y # rev (dropWhile P (rev ys))"
    using ny by (simp add: dropWhile_append)
  then show ?thesis using Cons ny by simp
qed

lemma strip_strip: "strip (strip s) = strip s"
  unfolding strip_def dropWhile_rev_dropWhile by (simp add: dropWhile_idem)

lemma contains_prefix: "prefix u z \<Longrightarrow> contains sub u \<Longrightarrow> contains sub z"
proof (induction z arbitrary: u)
  case Nil
  then show ?case by simp
next
  case (Cons c cs)
  show ?case
  proof (cases u)
    case Nil
    with Cons.prems show ?thesis by simp
  next
    case (Cons d ds)
    with Cons.prems have d: "d = c" and pre: "prefix ds cs" by simp_all
    from Cons.prems(2) \<open>u = d # ds\<close> have "prefix sub (d # ds) \<or> contains sub ds" by simp
    then show ?thesis
    proof
      assume "prefix sub (d # ds)"
      then have "prefix sub (c # cs)" using pre d by (meson Cons_prefix_Cons prefix_order.trans)
      then show ?thesis by simp
    next
      assume "contains sub ds"
      then show ?thesis using Cons.IH [OF pre] by simp
    qed
  qed
qed

lemma contains_strip: "contains sub (strip y) \<Longrightarrow> contains sub y"
proof -
  assume c: "contains sub (strip y)"
  have "prefix (rev (dropWhile is_space (rev z))) z" for z
    by (metis prefix_def rev_append rev_rev_ident takeWhile_dropWhile_id)
  then have "contains sub (dropWhile is_space y)"
    using c contains_prefix unfolding strip_def by blast
  then show ?thesis
    using contains_drop [of sub "length (takeWhile is_space y)" y] by (simp add: dropWhile_eq_drop)
qed

lemma cut_at_no_marker: "marker \<noteq> [] \<Longrightarrow> \<not> contains marker (cut_at marker s)"
proof (induction s)
  case Nil
  then show ?case by (simp add: cut_at_def)
next
  case (Cons c cs)
  show ?case
  proof (cases "prefix marker (c # cs)")
    case True
    with Cons.prems show ?thesis by (simp add: cut_at_def)
  next
    case False
    show ?thesis
    proof (cases "find_sub marker cs")
      case None
      then show ?thesis using False by (simp add: cut_at_def contains_find_sub)
    next
      case (Some i)
      have "\<not> prefix marker (c # take i cs)"
        using False by (meson Cons_prefix_Cons prefix_order.trans take_is_prefix)
      then show ?thesis using Cons False Some by (simp add: cut_at_def)
    qed
  qed
qed

lemma extract_research_content_eq:
  "extract_research_content research_text =
     Inr (strip (cut_at ''--- Competitor Content Analysis Summary ---''
                  (remove_all ''=== Research Report ==='' 0 (sub_think 0 research_text))))"
proof -
  let ?marker = "''--- Competitor Content Analysis Summary ---''"
  have guard: "(if contains ''<think>'' research_text \<and> contains ''</think>'' research_text
             then sub_think 0 research_text else research_text) = sub_think 0 research_text"
    using sub_think_no_tags [of research_text] by simp
  let ?t = "remove_all ''=== Research Report ==='' 0 (sub_think 0 research_text)"
  have m: "?marker \<noteq> []" by simp
  show ?thesis
  proof (cases "contains ?marker ?t")
    case True
    then show ?thesis
      unfolding extract_research_content_def guard Let_def
      by (simp add: first_item_split [OF m] bind_exn_def try_except_def strip_strip)
  next
    case False
    then have "cut_at ?marker ?t = ?t" by (simp add: contains_find_sub cut_at_def)
    with False show ?thesis
      unfolding extract_research_content_def guard Let_def
      by (simp add: bind_exn_def try_except_def)
  qed
qed

text \<open>
  C8, as amended. \<open>extract_research_content\<close> returns the text with the thinking spans
  removed (the leftmost, non-overlapping, shortest matches of one pass), every
  occurrence of the banner \<open>=== Research Report ===\<close> removed, everything from the
  first competitor-summary marker onward cut off, and the whitespace at both ends
  stripped. The excerpt holds no competitor-summary marker.
\<close>

theorem extract_research_content_excerpt:
  "extract_research_content research_text =
     Inr (strip (cut_at ''--- Competitor Content Analysis Summary ---''
                  (remove_all ''=== Research Report ==='' 0 (sub_think 0 research_text))))
   \<and> \<not> contains ''--- Competitor Content Analysis Summary ---''
         (strip (cut_at ''--- Competitor Content Analysis Summary ---''
                  (remove_all ''=== Research Report ==='' 0 (sub_think 0 research_text))))"
proof -
  have m: "''--- Competitor Content Analysis Summary ---'' \<noteq> []" by simp
  have "\<not> contains ''--- Competitor Content Analysis Summary ---''
         (strip (cut_at ''--- Competitor Content Analysis Summary ---''
                  (remove_all ''=== Research Report ==='' 0 (sub_think 0 research_text))))"
    using cut_at_no_marker [OF m, of "remove_all ''=== Research Report ==='' 0 (sub_think 0 research_text)"]
      contains_strip by blast
  then show ?thesis using extract_research_content_eq [of research_text] by simp
qed

lemma scenario_excerpt:
  "strip (cut_at ''--- Competitor Content Analysis Summary ---''
            (remove_all ''=== Research Report ==='' 0 (sub_think 0 scenario_report))) =
     ''Deep Research Thinking Process:\<newline>Mix 1:2:3.''"
  by code_simp

theorem extract_research_content_excerpt_witness:
  "extract_research_content scenario_report = Inr ''Deep Research Thinking Process:\<newline>Mix 1:2:3.''
   \<and> \<not> contains ''--- Competitor Content Analysis Summary ---''
         ''Deep Research Thinking Process:\<newline>Mix 1:2:3.''"
  using extract_research_content_excerpt [of scenario_report]
  unfolding scenario_excerpt
  by simp

text \<open>
  C8 as stated fails on the report the pipeline itself writes: the claimed excerpt keeps
  the banner and the blank lines before the marker, the returned one has neither.
\<close>

theorem extract_research_content_not_claimed:
  "extract_research_content scenario_report = Inr ''Deep Research Thinking Process:\<newline>Mix 1:2:3.''
   \<and> claimed_excerpt scenario_report =
       ''=== Research Report ===\<newline>\<newline>Deep Research Thinking Process:\<newline>Mix 1:2:3.\<newline>\<newline>''
   \<and> extract_research_content scenario_report \<noteq> Inr (claimed_excerpt scenario_report)"
proof -
  have a: "extract_research_content scenario_report =
      Inr ''Deep Research Thinking Process:\<newline>Mix 1:2:3.''"
    unfolding extract_research_content_eq scenario_excerpt by (rule refl)
  have b: "claimed_excerpt scenario_report =
       ''=== Research Report ===\<newline>\<newline>Deep Research Thinking Process:\<newline>Mix 1:2:3.\<newline>\<newline>''"
    by code_simp
  show ?thesis unfolding a b by simp
qed

text \<open>
  One pass only: text that the removal of a span puts together is not looked at again,
  so a thinking span can be left in the excerpt.
\<close>

lemma think_span_survives:
  "extract_research_content ''<thi<think>x</think>nk>y</think>'' = Inr ''<think>y</think>''"
  by code_simp

lemma scenario_report_generated:
  "generate_research_report ''2025-01-01 00:00:00'' ''<think>plan the answer</think>Mix 1:2:3.''
     [scenario_profiles ! 1] = Inr scenario_report"
  by code_simp

section \<open>The blog stage: proofs\<close>

lemma generate_blog_content_no_content:
  assumes "ANTHROPIC_API_KEY \<noteq> []"
    and "messages_create sv (blog_prompt guidelines outline_content research_content) w = (outcome, w1)"
    and "no_content outcome"
  shows "\<exists>msg. generate_blog_content sv ANTHROPIC_API_KEY guidelines outline_content research_content w =
           (Inl (Exception (''Error generating content: '' @ msg)), w1)"
proof (cases outcome)
  case (Inl e)
  with assms(1,2) show ?thesis
    by (simp add: generate_blog_content_def try_except_def bind_exn_def)
next
  case (Inr message)
  with assms show ?thesis
    by (cases message)
      (simp_all add: generate_blog_content_def try_except_def bind_exn_def no_content_def)
qed

text \<open>
  C7. When the model call gives no content, \<open>generate_blog_content\<close> raises, as claimed.
  What happens to the outline and the research report is decided by the caller. With
  \<open>auto_generate\<close> on, \<open>main\<close> calls the generator unguarded inside its \<open>try\<close>: the
  exception reaches the handler of \<open>main\<close>, the page shows the one error line, and
  the tabs with the outline and the report are never drawn. With \<open>auto_generate\<close> off
  and the button pressed, the same call stands in a \<open>try\<close> of its own: both tabs are
  drawn and the error is shown in the third.
\<close>

theorem blog_failure_hides_artifacts:
  assumes "ANTHROPIC_API_KEY \<noteq> []"
    and "messages_create sv
           (blog_prompt guidelines enhanced_outline (Some (excerpt research_report))) w = (outcome, w1)"
    and "no_content outcome"
  shows "\<exists>msg.
      generate_blog_content sv ANTHROPIC_API_KEY guidelines enhanced_outline
          (Some (excerpt research_report)) w =
        (Inl (Exception msg), w1)
      \<and> main_results sv ANTHROPIC_API_KEY guidelines True generate_clicked
            enhanced_outline research_report w =
          ([Ui_error (''Error during analysis: '' @ msg)], w1)
      \<and> main_results sv ANTHROPIC_API_KEY guidelines False True
            enhanced_outline research_report w =
          ([Show_outline enhanced_outline, Show_report research_report,
            Ui_error (''Error during content generation: '' @ msg),
            Ui_info ''Please make sure your ANTHROPIC_API_KEY is correctly set in the .env file''], w1)"
proof -
  obtain msg where g: "generate_blog_content sv ANTHROPIC_API_KEY guidelines enhanced_outline
          (Some (excerpt research_report)) w =
        (Inl (Exception (''Error generating content: '' @ msg)), w1)"
    using generate_blog_content_no_content [OF assms] by blast
  have e: "extract_research_content research_report = Inr (excerpt research_report)"
    by (simp add: extract_research_content_eq excerpt_def)
  have auto: "main_results sv ANTHROPIC_API_KEY guidelines True generate_clicked
            enhanced_outline research_report w =
          ([Ui_error (''Error during analysis: '' @ ''Error generating content: '' @ msg)], w1)"
    using assms(1) by (simp add: main_results_def auto_blog_def e g)
  have manual: "main_results sv ANTHROPIC_API_KEY guidelines False True
            enhanced_outline research_report w =
          ([Show_outline enhanced_outline, Show_report research_report,
            Ui_error (''Error during content generation: '' @ ''Error generating content: '' @ msg),
            Ui_info ''Please make sure your ANTHROPIC_API_KEY is correctly set in the .env file''], w1)"
    by (simp add: main_results_def auto_blog_def manual_blog_def e g)
  show ?thesis
    using g auto manual by blast
qed

theorem blog_failure_hides_artifacts_witness:
  "main_results url_services ''sk-key'' ''Here is the outline document:\<newline>\<newline>'' True False
       ''SEO Article Outline'' scenario_report 0 =
     ([Ui_error ''Error during analysis: Error generating content: No content received from Claude API''], 1)
   \<and> main_results url_services ''sk-key'' ''Here is the outline document:\<newline>\<newline>'' False True
       ''SEO Article Outline'' scenario_report 0 =
     ([Show_outline ''SEO Article Outline'', Show_report scenario_report,
       Ui_error ''Error during content generation: Error generating content: No content received from Claude API'',
       Ui_info ''Please make sure your ANTHROPIC_API_KEY is correctly set in the .env file''], 1)"
proof -
  let ?g = "''Here is the outline document:\<newline>\<newline>''"
  have key: "''sk-key'' \<noteq> []" by simp
  have call: "messages_create url_services
      (blog_prompt ?g ''SEO Article Outline'' (Some (excerpt scenario_report))) 0 =
      (Inr (Some \<lparr> content_texts = [] \<rparr>), 1)"
    by (simp add: url_services_def)
  have none: "no_content (Inr (Some \<lparr> content_texts = [] \<rparr>))"
    by (simp add: no_content_def)
  obtain msg where msg:
    "generate_blog_content url_services ''sk-key'' ?g ''SEO Article Outline''
        (Some (excerpt scenario_report)) 0 = (Inl (Exception msg), 1)"
    "main_results url_services ''sk-key'' ?g True False ''SEO Article Outline'' scenario_report 0 =
        ([Ui_error (''Error during analysis: '' @ msg)], 1)"
    "main_results url_services ''sk-key'' ?g False True ''SEO Article Outline'' scenario_report 0 =
        ([Show_outline ''SEO Article Outline'', Show_report scenario_report,
          Ui_error (''Error during content generation: '' @ msg),
          Ui_info ''Please make sure your ANTHROPIC_API_KEY is correctly set in the .env file''], 1)"
    using blog_failure_hides_artifacts [OF key call none, of False] by blast
  have "generate_blog_content url_services ''sk-key'' ?g ''SEO Article Outline''
        (Some (excerpt scenario_report)) 0 =
      (Inl (Exception ''Error generating content: No content received from Claude API''), 1)"
    by (simp add: generate_blog_content_def call try_except_def bind_exn_def del: append.simps)
  with msg(1) have "msg = ''Error generating content: No content received from Claude API''"
    by simp
  with msg(2,3) show ?thesis by simp
qed

end
